theory Spec2Isabelle
  imports Complex_Main
begin

section \<open>JavaScript values\<close>

text \<open>
  The handler of \<^verbatim>\<open>index.js\<close> works on untyped JavaScript values: the parsed JSON
  payload, the answers of the two moderation services, the value the backend returns and
  the values that are thrown. They are modelled by one datatype. An object is the list
  of its own properties in insertion order; the first binding of a key is the one a
  property read sees. Error instances are objects with the properties \<^verbatim>\<open>message\<close>,
  \<^verbatim>\<open>stack\<close> and, when \<^verbatim>\<open>createError\<close> made them, \<^verbatim>\<open>statusCode\<close>.
\<close>

datatype jsval =
    JUndefined
  | JNull
  | JBool bool
  | JNum real
  | JNaN
  | JInfinity bool
  | JStr string
  | JArr "jsval list"
  | JObj "(string \<times> jsval) list"

text \<open>
  \<^verbatim>\<open>Boolean(v)\<close>, the test of \<^verbatim>\<open>!v\<close>, \<^verbatim>\<open>v && w\<close> and \<^verbatim>\<open>v || w\<close>: the falsy values are
  \<^verbatim>\<open>undefined\<close>, \<^verbatim>\<open>null\<close>, \<^verbatim>\<open>false\<close>, \<^verbatim>\<open>0\<close>, \<^verbatim>\<open>NaN\<close> and the empty string; every array
  and every object is truthy, the empty ones too.
\<close>

fun truthy :: "jsval \<Rightarrow> bool" where
  "truthy JUndefined = False"
| "truthy JNull = False"
| "truthy (JBool b) = b"
| "truthy (JNum r) = (r \<noteq> 0)"
| "truthy JNaN = False"
| "truthy (JInfinity _) = True"
| "truthy (JStr s) = (s \<noteq> [])"
| "truthy (JArr _) = True"
| "truthy (JObj _) = True"

definition js_or :: "jsval \<Rightarrow> jsval \<Rightarrow> jsval" where
  "js_or a b = (if truthy a then a else b)"

text \<open>
  A thrown value is any value. \<^verbatim>\<open>createError(code, message)\<close> of micro makes an
  \<^verbatim>\<open>Error\<close> with that message and sets its \<^verbatim>\<open>statusCode\<close>. The text of the stack and
  of the message of a \<^verbatim>\<open>TypeError\<close> or a \<^verbatim>\<open>RangeError\<close> belongs to the JavaScript
  engine; the model keeps a non-empty placeholder for them.
\<close>

definition createError :: "real \<Rightarrow> string \<Rightarrow> jsval" where
  "createError code msg =
     JObj [(''message'', JStr msg), (''stack'', JStr (''Error: '' @ msg)),
           (''statusCode'', JNum code)]"

definition typeError :: "string \<Rightarrow> jsval" where
  "typeError k =
     JObj [(''message'', JStr (''Cannot read property '' @ k)),
           (''stack'', JStr (''TypeError: Cannot read property '' @ k))]"

definition rangeError :: jsval where
  "rangeError =
     JObj [(''message'', JStr ''Invalid status code''),
           (''stack'', JStr ''RangeError: Invalid status code'')]"

text \<open>
  The property read \<^verbatim>\<open>v.k\<close>. On \<^verbatim>\<open>undefined\<close> and \<^verbatim>\<open>null\<close> it throws a
  \<^verbatim>\<open>TypeError\<close>. On an object it gives the property, or \<^verbatim>\<open>undefined\<close> when there is
  none. On the other values it gives \<^verbatim>\<open>undefined\<close>: the handler only reads
  \<^verbatim>\<open>body\<close>, \<^verbatim>\<open>attributeScores\<close>, \<^verbatim>\<open>TOXICITY\<close>, \<^verbatim>\<open>summaryScore\<close>, \<^verbatim>\<open>value\<close>, \<^verbatim>\<open>stack\<close>,
  \<^verbatim>\<open>statusCode\<close> and \<^verbatim>\<open>message\<close>, and no prototype of a primitive value or of an array
  has a property of one of these names.
\<close>

fun get_prop :: "jsval \<Rightarrow> string \<Rightarrow> jsval + jsval" where
  "get_prop JUndefined k = Inl (typeError k)"
| "get_prop JNull k = Inl (typeError k)"
| "get_prop (JObj ps) k = Inr (case map_of ps k of None \<Rightarrow> JUndefined | Some v \<Rightarrow> v)"
| "get_prop v k = Inr JUndefined"

section \<open>Requests, the environment and the collaborators\<close>

record request =
  req_method :: string
  req_headers :: "(string \<times> string) list"

text \<open>\<^verbatim>\<open>req.headers[k]\<close>: the header, or \<^verbatim>\<open>undefined\<close>.\<close>

definition header :: "request \<Rightarrow> string \<Rightarrow> jsval" where
  "header req k = (case map_of (req_headers req) k of None \<Rightarrow> JUndefined | Some s \<Rightarrow> JStr s)"

text \<open>
  What the handler reads from outside \<^verbatim>\<open>index.js\<close>: the process environment, the
  version of \<^verbatim>\<open>package.json\<close>, and the three asynchronous calls it awaits, each of which
  resolves to a value (\<open>Inr\<close>) or rejects with a thrown value (\<open>Inl\<close>):
  \<^verbatim>\<open>json(req)\<close> of micro, \<^verbatim>\<open>perspectiveClient.analyze(text, options)\<close> of a client built
  from its constructor's options, and \<^verbatim>\<open>akismetClient.checkSpam(params)\<close> of a client
  built from its options. The environment is read once and does not change.
  \<open>int32_of\<close> is the engine's conversion \<^verbatim>\<open>v | 0\<close> of a string, an array or an object to a
  32-bit integer, which the model does not spell out.
\<close>

record world =
  env :: "string \<rightharpoonup> string"
  pkg_version :: string
  json :: "request \<Rightarrow> jsval + jsval"
  analyze :: "jsval \<Rightarrow> jsval \<Rightarrow> jsval \<Rightarrow> jsval + jsval"
  checkSpam :: "jsval \<Rightarrow> jsval \<Rightarrow> jsval + jsval"
  int32_of :: "jsval \<Rightarrow> int"

text \<open>
  The backend is the first argument of the exported factory: it receives the context
  object and the request, and returns or throws. The response handle it also receives
  is not modelled: the responses are the \<open>Send\<close> events of the trace.
\<close>

type_synonym backend = "jsval \<Rightarrow> request \<Rightarrow> jsval + jsval"

text \<open>\<^verbatim>\<open>process.env[k]\<close>: a string, or \<^verbatim>\<open>undefined\<close>.\<close>

definition env_val :: "world \<Rightarrow> string \<Rightarrow> jsval" where
  "env_val w k = (case env w k of None \<Rightarrow> JUndefined | Some s \<Rightarrow> JStr s)"

text \<open>\<^verbatim>\<open>Boolean(process.env[k] && process.env[k2] !== 'false')\<close>.\<close>

definition env_flag :: "world \<Rightarrow> string \<Rightarrow> string \<Rightarrow> bool" where
  "env_flag w k k2 = (truthy (env_val w k) \<and> env_val w k2 \<noteq> JStr ''false'')"

definition perspectiveEnabled :: "world \<Rightarrow> bool" where
  "perspectiveEnabled w = env_flag w ''PERSPECTIVE_API_KEY'' ''PERSPECTIVE_ENABLED''"

definition akismetEnabled :: "world \<Rightarrow> bool" where
  "akismetEnabled w = env_flag w ''AKISMET_API_KEY'' ''AKISMET_ENABLED''"

definition allowSpam :: "world \<Rightarrow> bool" where
  "allowSpam w = env_flag w ''ALLOW_SPAM'' ''ALLOW_SPAM''"

section \<open>Effects\<close>

text \<open>
  A run of an asynchronous function is the list of the effects it had, in order, and
  how it settled: rejected with a thrown value (\<open>Inl\<close>) or resolved (\<open>Inr\<close>).
\<close>

datatype event =
    CorsHeaders "string list"
  | EndResponse
  | Analyze jsval jsval jsval
  | CheckSpam jsval jsval
  | Backend jsval request
  | ConsoleError jsval
  | Send jsval jsval

type_synonym 'a run = "event list \<times> (jsval + 'a)"

definition done_with :: "'a \<Rightarrow> 'a run" where
  "done_with x = ([], Inr x)"

definition throw :: "jsval \<Rightarrow> 'a run" where
  "throw e = ([], Inl e)"

definition settle :: "jsval + 'a \<Rightarrow> 'a run" where
  "settle r = ([], r)"

definition effect :: "event \<Rightarrow> jsval + 'a \<Rightarrow> 'a run" where
  "effect ev r = ([ev], r)"

text \<open>Sequencing: a statement after an awaited one runs only when that one did not throw.\<close>

definition and_then :: "'a run \<Rightarrow> ('a \<Rightarrow> 'b run) \<Rightarrow> 'b run" where
  "and_then m f =
     (case m of
        (t, Inl e) \<Rightarrow> (t, Inl e)
      | (t, Inr x) \<Rightarrow> (case f x of (t', r) \<Rightarrow> (t @ t', r)))"

text \<open>\<^verbatim>\<open>try { m } catch (error) { h }\<close>.\<close>

definition try_catch :: "'a run \<Rightarrow> (jsval \<Rightarrow> 'a run) \<Rightarrow> 'a run" where
  "try_catch m h =
     (case m of
        (t, Inl e) \<Rightarrow> (case h e of (t', r) \<Rightarrow> (t @ t', r))
      | (t, Inr x) \<Rightarrow> (t, Inr x))"

text \<open>
  \<^verbatim>\<open>send(res, status, body)\<close> of micro sets \<^verbatim>\<open>res.statusCode\<close> and ends the response
  with the serialised body. Ending it writes the head, and \<^verbatim>\<open>writeHead\<close> of Node converts
  the status with \<^verbatim>\<open>statusCode |= 0\<close> and throws a \<^verbatim>\<open>RangeError\<close>, before anything is
  written, when the result is below 100 or above 999. \<open>to_int32\<close> is that conversion of a
  finite number: the fraction is dropped and the integer wraps to 32 signed bits. The
  values of the model are finite trees, so the serialisation of a body does not fail.
  A \<open>Send\<close> event is a call of \<^verbatim>\<open>send\<close> that returned, with the status and the body it
  was given; the model stops there, and what Node then puts on the wire for that call
  is not part of it.
\<close>

definition to_int32 :: "real \<Rightarrow> int" where
  "to_int32 r =
     (let n = (if r < 0 then - \<lfloor>- r\<rfloor> else \<lfloor>r\<rfloor>); m = n mod 4294967296
      in if 2147483648 \<le> m then m - 4294967296 else m)"

definition status_int :: "world \<Rightarrow> jsval \<Rightarrow> int" where
  "status_int w v =
     (case v of
        JUndefined \<Rightarrow> 0
      | JNull \<Rightarrow> 0
      | JBool b \<Rightarrow> (if b then 1 else 0)
      | JNum r \<Rightarrow> to_int32 r
      | JNaN \<Rightarrow> 0
      | JInfinity _ \<Rightarrow> 0
      | _ \<Rightarrow> int32_of w v)"

definition accepted_status :: "world \<Rightarrow> jsval \<Rightarrow> bool" where
  "accepted_status w v = (100 \<le> status_int w v \<and> status_int w v \<le> 999)"

definition send :: "world \<Rightarrow> jsval \<Rightarrow> jsval \<Rightarrow> unit run" where
  "send w status body =
     (if accepted_status w status then effect (Send status body) (Inr ())
      else throw rangeError)"

text \<open>\<^verbatim>\<open>console.error(error.stack || error)\<close>, the body of both inner catch blocks.\<close>

definition log_error :: "jsval \<Rightarrow> unit run" where
  "log_error error =
     and_then (settle (get_prop error ''stack''))
       (\<lambda>stack. effect (ConsoleError (js_or stack error)) (Inr ()))"

section \<open>The handler\<close>

text \<open>
  \<^verbatim>\<open>handleErrors\<close> (lines 19 to 32): the wrapped handler's result is returned; an error
  it throws is logged in development mode when it has a stack, and rendered with
  \<^verbatim>\<open>error.statusCode || 500\<close> as its status. What the \<^verbatim>\<open>catch\<close> block throws itself, a
  read on \<^verbatim>\<open>null\<close> or a refused status, rejects the handler.
\<close>

definition handleErrors :: "world \<Rightarrow> (request \<Rightarrow> jsval run) \<Rightarrow> request \<Rightarrow> jsval run" where
  "handleErrors w fn req =
     try_catch (fn req)
       (\<lambda>error.
          and_then
            (if env w ''NODE_ENV'' = Some ''dev'' then
               and_then (settle (get_prop error ''stack''))
                 (\<lambda>stack.
                    if truthy stack then
                      and_then (settle (get_prop error ''stack''))
                        (\<lambda>stack'. effect (ConsoleError stack') (Inr ()))
                    else done_with ())
             else done_with ())
            (\<lambda>_. and_then (settle (get_prop error ''statusCode''))
               (\<lambda>statusCode.
                  let status = js_or statusCode (JNum 500) in
                  and_then (settle (get_prop error ''message''))
                    (\<lambda>message.
                       and_then
                         (send w status (JObj [(''status'', status), (''message'', message)]))
                         (\<lambda>_. done_with JUndefined)))))"

text \<open>
  Modelled from the spec: the wrapper \<^verbatim>\<open>microCors({allowMethods: ['GET', 'POST', 'OPTIONS']})\<close>
  of the package micro-cors, which is not part of the sources. Section 4.2: every response
  carries the cross-origin headers allowing the three methods, and an \<^verbatim>\<open>OPTIONS\<close>
  preflight is answered without reaching the method dispatch.
\<close>

definition cors :: "(request \<Rightarrow> jsval run) \<Rightarrow> request \<Rightarrow> jsval run" where
  "cors fn req =
     and_then (effect (CorsHeaders [''GET'', ''POST'', ''OPTIONS'']) (Inr ()))
       (\<lambda>_. if req_method req = ''OPTIONS'' then effect EndResponse (Inr JUndefined)
            else fn req)"

text \<open>The property \<^verbatim>\<open>backend\<close> that both envelopes get when \<^verbatim>\<open>attributes\<close> is truthy.\<close>

definition with_backend :: "jsval \<Rightarrow> (string \<times> jsval) list \<Rightarrow> jsval" where
  "with_backend attributes ps =
     JObj (if truthy attributes then ps @ [(''backend'', attributes)] else ps)"

text \<open>Lines 46 to 59, the answer to \<^verbatim>\<open>GET\<close>.\<close>

definition info :: "world \<Rightarrow> jsval \<Rightarrow> jsval" where
  "info w attributes =
     with_backend attributes
       [(''message'',
           JStr (''Welcome to the microfeedback API. Send a POST '' @
                 ''request to send feedback.'')),
        (''core'',
           JObj [(''version'', JStr (pkg_version w)),
                 (''perspectiveEnabled'', JBool (perspectiveEnabled w)),
                 (''akismetEnabled'', JBool (akismetEnabled w))])]"

text \<open>
  Lines 65 and 67 to 76, the toxicity stage: the value of \<^verbatim>\<open>perspective\<close> after it.
  \<open>toxicity_attempt\<close> is the body of the \<^verbatim>\<open>try\<close>, lines 70 to 72: the call and the
  chain of property reads; the last read, of \<^verbatim>\<open>value\<close>, is not looked at before it is
  stored.
\<close>

definition perspective_options :: "world \<Rightarrow> jsval" where
  "perspective_options w = JObj [(''apiKey'', env_val w ''PERSPECTIVE_API_KEY'')]"

definition analyze_options :: jsval where
  "analyze_options = JObj [(''truncate'', JBool True)]"

definition extract_toxicity :: "jsval \<Rightarrow> jsval run" where
  "extract_toxicity response =
     and_then (settle (get_prop response ''attributeScores''))
       (\<lambda>scores. and_then (settle (get_prop scores ''TOXICITY''))
          (\<lambda>tox. and_then (settle (get_prop tox ''summaryScore''))
             (\<lambda>summary. and_then (settle (get_prop summary ''value''))
                (\<lambda>toxicity. done_with (JObj [(''toxicity'', toxicity)])))))"

definition toxicity_attempt :: "world \<Rightarrow> jsval \<Rightarrow> jsval run" where
  "toxicity_attempt w body =
     and_then
       (effect (Analyze (perspective_options w) body analyze_options)
          (analyze w (perspective_options w) body analyze_options))
       extract_toxicity"

definition toxicity_stage :: "world \<Rightarrow> jsval \<Rightarrow> jsval run" where
  "toxicity_stage w body =
     (if perspectiveEnabled w then
        try_catch (toxicity_attempt w body)
          (\<lambda>error. and_then (log_error error) (\<lambda>_. done_with JNull))
      else done_with JNull)"

text \<open>
  Lines 66 and 77 to 103, the spam stage: the value of \<^verbatim>\<open>akismet\<close> after it, or the
  error thrown when spam is detected and not allowed. \<^verbatim>\<open>spam\<close> stays \<^verbatim>\<open>null\<close> when the
  check throws; \<^verbatim>\<open>spam !== null\<close> holds for every other value.
\<close>

definition akismet_options :: "world \<Rightarrow> request \<Rightarrow> jsval" where
  "akismet_options w req =
     JObj [(''key'', env_val w ''AKISMET_API_KEY''), (''blog'', header req ''origin'')]"

definition akismet_params :: "request \<Rightarrow> jsval \<Rightarrow> jsval" where
  "akismet_params req body =
     JObj [(''user_ip'', header req ''remote-addr''),
           (''user_agent'', header req ''user-agent''),
           (''referrer'', header req ''referer''),
           (''comment_type'', JStr ''comment''),
           (''comment_content'', js_or body (JStr ''''))]"

definition spam_stage :: "world \<Rightarrow> request \<Rightarrow> jsval \<Rightarrow> jsval run" where
  "spam_stage w req body =
     (if akismetEnabled w then
        and_then
          (try_catch
             (effect (CheckSpam (akismet_options w req) (akismet_params req body))
                (checkSpam w (akismet_options w req) (akismet_params req body)))
             (\<lambda>error. and_then (log_error error) (\<lambda>_. done_with JNull)))
          (\<lambda>spam.
             if spam \<noteq> JNull then
               if truthy spam \<and> \<not> allowSpam w then throw (createError 400 ''Spam detected.'')
               else done_with (JObj [(''spam'', spam)])
             else done_with JNull)
      else done_with JNull)"

text \<open>Line 104: the context object the backend is called with.\<close>

definition context_object :: "jsval \<Rightarrow> jsval \<Rightarrow> jsval \<Rightarrow> jsval" where
  "context_object input perspective akismet =
     JObj [(''input'', input), (''perspective'', perspective), (''akismet'', akismet)]"

text \<open>Lines 61 to 109, the answer to \<^verbatim>\<open>POST\<close>.\<close>

definition post :: "world \<Rightarrow> backend \<Rightarrow> jsval \<Rightarrow> request \<Rightarrow> jsval run" where
  "post w backend attributes req =
     and_then (settle (json w req))
       (\<lambda>input. and_then (settle (get_prop input ''body''))
          (\<lambda>body.
             if \<not> truthy body then
               throw (createError 422 ''\"body\" is required in request payload'')
             else
               and_then (toxicity_stage w body)
                 (\<lambda>perspective. and_then (spam_stage w req body)
                    (\<lambda>akismet.
                       and_then
                         (effect (Backend (context_object input perspective akismet) req)
                            (backend (context_object input perspective akismet) req))
                         (\<lambda>result.
                            and_then (send w (JNum 201) (with_backend attributes [(''result'', result)]))
                              (\<lambda>_. done_with JUndefined))))))"

text \<open>Lines 44 to 113, the function wrapped by \<^verbatim>\<open>cors\<close>.\<close>

definition dispatch :: "world \<Rightarrow> backend \<Rightarrow> jsval \<Rightarrow> request \<Rightarrow> jsval run" where
  "dispatch w backend attributes req =
     (if req_method req = ''GET'' then
        and_then (send w (JNum 200) (info w attributes)) (\<lambda>_. done_with JUndefined)
      else if req_method req = ''POST'' then post w backend attributes req
      else throw (createError 405 (''Method '' @ req_method req @ '' not allowed.'')))"

text \<open>Lines 42 to 114, \<^verbatim>\<open>module.exports\<close>: the handler made from a backend.\<close>

definition microfeedback :: "world \<Rightarrow> backend \<Rightarrow> jsval \<Rightarrow> request \<Rightarrow> jsval run" where
  "microfeedback w backend attributes = handleErrors w (cors (dispatch w backend attributes))"

section \<open>Observations of a run\<close>

fun sends :: "event list \<Rightarrow> (jsval \<times> jsval) list" where
  "sends [] = []"
| "sends (Send status body # t) = (status, body) # sends t"
| "sends (_ # t) = sends t"

fun backend_calls :: "event list \<Rightarrow> (jsval \<times> request) list" where
  "backend_calls [] = []"
| "backend_calls (Backend c r # t) = (c, r) # backend_calls t"
| "backend_calls (_ # t) = backend_calls t"

fun analyze_calls :: "event list \<Rightarrow> (jsval \<times> jsval \<times> jsval) list" where
  "analyze_calls [] = []"
| "analyze_calls (Analyze c x opts # t) = (c, x, opts) # analyze_calls t"
| "analyze_calls (_ # t) = analyze_calls t"

fun checkSpam_calls :: "event list \<Rightarrow> (jsval \<times> jsval) list" where
  "checkSpam_calls [] = []"
| "checkSpam_calls (CheckSpam c p # t) = (c, p) # checkSpam_calls t"
| "checkSpam_calls (_ # t) = checkSpam_calls t"

text \<open>A score in the closed interval from 0 to 1.\<close>

definition in_unit_interval :: "jsval \<Rightarrow> bool" where
  "in_unit_interval v = (case v of JNum r \<Rightarrow> 0 \<le> r \<and> r \<le> 1 | _ \<Rightarrow> False)"

section \<open>Example requests\<close>

text \<open>
  Concrete collaborators for the examples: an environment, the payload \<^verbatim>\<open>json\<close> gives,
  and the settled values of the two services; no string, array or object is read as a
  status there. The backend of the examples answers \<^verbatim>\<open>{status: 'ok'}\<close>.
\<close>

definition example_world ::
  "(string \<rightharpoonup> string) \<Rightarrow> jsval + jsval \<Rightarrow> jsval + jsval \<Rightarrow> jsval + jsval \<Rightarrow> world" where
  "example_world e payload toxicity verdict =
     \<lparr>env = e, pkg_version = ''1.0.0'', json = (\<lambda>req. payload),
      analyze = (\<lambda>client text options. toxicity), checkSpam = (\<lambda>client params. verdict),
      int32_of = (\<lambda>v. 0)\<rparr>"

definition example_backend :: backend where
  "example_backend ctx req = Inr (JObj [(''status'', JStr ''ok'')])"

definition failing_backend :: "jsval \<Rightarrow> backend" where
  "failing_backend error ctx req = Inl error"

definition post_request :: request where
  "post_request =
     \<lparr>req_method = ''POST'',
      req_headers = [(''origin'', ''https://example.org''), (''user-agent'', ''curl'')]\<rparr>"

definition get_request :: request where
  "get_request = \<lparr>req_method = ''GET'', req_headers = []\<rparr>"

definition nice_app :: jsval where
  "nice_app = JObj [(''body'', JStr ''nice app!'')]"

definition score_response :: "jsval \<Rightarrow> jsval" where
  "score_response summary =
     JObj [(''attributeScores'', JObj [(''TOXICITY'', JObj [(''summaryScore'', summary)])])]"

section \<open>Lemmas about the model\<close>

lemma and_then_Inl [simp]: "and_then (t, Inl e) f = (t, Inl e)"
  by (simp add: and_then_def)

lemma and_then_Inr [simp]: "and_then (t, Inr x) f = (t @ fst (f x), snd (f x))"
  by (simp add: and_then_def split: prod.splits)

lemma try_catch_Inr [simp]: "try_catch (t, Inr x) h = (t, Inr x)"
  by (simp add: try_catch_def)

lemma try_catch_Inl [simp]: "try_catch (t, Inl e) h = (t @ fst (h e), snd (h e))"
  by (simp add: try_catch_def split: prod.splits)

lemmas run_defs = done_with_def throw_def settle_def effect_def send_def

lemma accepted_status_constants [simp]:
  "accepted_status w (JNum 200)" "accepted_status w (JNum 201)" "accepted_status w (JNum 400)"
  "accepted_status w (JNum 422)" "accepted_status w (JNum 500)"
  by (simp_all add: accepted_status_def status_int_def to_int32_def)

lemma accepted_status_whole:
  assumes "100 \<le> n" and "n \<le> 999"
  shows "accepted_status w (JNum (of_int n))"
proof -
  have "n mod 4294967296 = n" using assms by simp
  then show ?thesis using assms
    by (simp add: accepted_status_def status_int_def to_int32_def Let_def)
qed

lemma sends_append [simp]: "sends (t @ u) = sends t @ sends u"
  by (induction t rule: sends.induct) simp_all

lemma backend_calls_append [simp]: "backend_calls (t @ u) = backend_calls t @ backend_calls u"
  by (induction t rule: backend_calls.induct) simp_all

lemma analyze_calls_append [simp]: "analyze_calls (t @ u) = analyze_calls t @ analyze_calls u"
  by (induction t rule: analyze_calls.induct) simp_all

lemma checkSpam_calls_append [simp]: "checkSpam_calls (t @ u) = checkSpam_calls t @ checkSpam_calls u"
  by (induction t rule: checkSpam_calls.induct) simp_all

lemma log_error_cases:
  "log_error e = ([], Inl (typeError ''stack'')) \<or> (\<exists>v. log_error e = ([ConsoleError v], Inr ()))"
  by (cases e) (simp_all add: log_error_def run_defs)

lemma log_error_ok:
  "get_prop e ''stack'' = Inr s \<Longrightarrow> log_error e = ([ConsoleError (js_or s e)], Inr ())"
  by (simp add: log_error_def run_defs)

lemma extract_toxicity_fst [simp]: "fst (extract_toxicity r) = []"
  by (simp add: extract_toxicity_def run_defs and_then_def split: sum.splits prod.splits)

lemma toxicity_attempt_fst [simp]:
  "fst (toxicity_attempt w body) = [Analyze (perspective_options w) body analyze_options]"
  by (cases "analyze w (perspective_options w) body analyze_options")
    (simp_all add: toxicity_attempt_def run_defs)

text \<open>What the toxicity stage leaves, by the outcome of its try block.\<close>

lemma toxicity_stage_disabled:
  "\<not> perspectiveEnabled w \<Longrightarrow> toxicity_stage w body = ([], Inr JNull)"
  by (simp add: toxicity_stage_def run_defs)

lemma toxicity_stage_ok:
  assumes "perspectiveEnabled w" and "snd (toxicity_attempt w body) = Inr v"
  shows "toxicity_stage w body = ([Analyze (perspective_options w) body analyze_options], Inr v)"
proof -
  have "toxicity_attempt w body = ([Analyze (perspective_options w) body analyze_options], Inr v)"
    using assms(2) toxicity_attempt_fst [of w body] by (cases "toxicity_attempt w body") simp
  then show ?thesis using assms(1) by (simp add: toxicity_stage_def)
qed

lemma toxicity_stage_failed:
  assumes "perspectiveEnabled w" and "snd (toxicity_attempt w body) = Inl e"
    and "get_prop e ''stack'' = Inr s"
  shows "toxicity_stage w body =
    ([Analyze (perspective_options w) body analyze_options, ConsoleError (js_or s e)], Inr JNull)"
proof -
  have "toxicity_attempt w body = ([Analyze (perspective_options w) body analyze_options], Inl e)"
    using assms(2) toxicity_attempt_fst [of w body] by (cases "toxicity_attempt w body") simp
  then show ?thesis using assms(1,3) by (simp add: toxicity_stage_def log_error_ok run_defs)
qed

lemma toxicity_stage_trace:
  "sends (fst (toxicity_stage w body)) = [] \<and>
   backend_calls (fst (toxicity_stage w body)) = [] \<and>
   checkSpam_calls (fst (toxicity_stage w body)) = [] \<and>
   analyze_calls (fst (toxicity_stage w body)) =
     (if perspectiveEnabled w then [(perspective_options w, body, analyze_options)] else [])"
proof (cases "perspectiveEnabled w")
  case False
  then show ?thesis by (simp add: toxicity_stage_disabled)
next
  case True
  obtain t r where tr: "toxicity_attempt w body = (t, r)" by (cases "toxicity_attempt w body")
  have t: "t = [Analyze (perspective_options w) body analyze_options]"
    using tr toxicity_attempt_fst [of w body] by simp
  show ?thesis
  proof (cases r)
    case (Inr v)
    then show ?thesis using True tr t by (simp add: toxicity_stage_def)
  next
    case (Inl e)
    then show ?thesis using True tr t log_error_cases [of e]
      by (auto simp add: toxicity_stage_def run_defs)
  qed
qed

lemma get_prop_defined: "get_prop e k = Inr v \<Longrightarrow> \<exists>v'. get_prop e k' = Inr v'"
  by (cases e) simp_all

lemma spam_stage_disabled:
  "\<not> akismetEnabled w \<Longrightarrow> spam_stage w req body = ([], Inr JNull)"
  by (simp add: spam_stage_def run_defs)

lemma spam_stage_verdict:
  assumes "akismetEnabled w"
    and "checkSpam w (akismet_options w req) (akismet_params req body) = Inr spam"
  shows "spam_stage w req body =
    ([CheckSpam (akismet_options w req) (akismet_params req body)],
     if spam = JNull then Inr JNull
     else if truthy spam \<and> \<not> allowSpam w then Inl (createError 400 ''Spam detected.'')
     else Inr (JObj [(''spam'', spam)]))"
  using assms by (simp add: spam_stage_def run_defs)

lemma spam_stage_trace:
  "sends (fst (spam_stage w req body)) = [] \<and>
   backend_calls (fst (spam_stage w req body)) = [] \<and>
   analyze_calls (fst (spam_stage w req body)) = [] \<and>
   checkSpam_calls (fst (spam_stage w req body)) =
     (if akismetEnabled w then [(akismet_options w req, akismet_params req body)] else [])"
proof (cases "akismetEnabled w")
  case False
  then show ?thesis by (simp add: spam_stage_disabled)
next
  case True
  show ?thesis
  proof (cases "checkSpam w (akismet_options w req) (akismet_params req body)")
    case (Inr spam)
    then show ?thesis using True by (simp add: spam_stage_verdict)
  next
    case (Inl e)
    then show ?thesis using True log_error_cases [of e]
      by (auto simp add: spam_stage_def run_defs)
  qed
qed

lemma post_parse_failed: "json w req = Inl e \<Longrightarrow> post w backend attributes req = ([], Inl e)"
  by (simp add: post_def run_defs)

lemma post_unreadable:
  "json w req = Inr input \<Longrightarrow> get_prop input ''body'' = Inl e \<Longrightarrow>
   post w backend attributes req = ([], Inl e)"
  by (simp add: post_def run_defs)

lemma post_invalid:
  "json w req = Inr input \<Longrightarrow> get_prop input ''body'' = Inr body \<Longrightarrow> \<not> truthy body \<Longrightarrow>
   post w backend attributes req =
     ([], Inl (createError 422 ''\"body\" is required in request payload''))"
  by (simp add: post_def run_defs)

lemma post_toxicity_threw:
  "json w req = Inr input \<Longrightarrow> get_prop input ''body'' = Inr body \<Longrightarrow> truthy body \<Longrightarrow>
   toxicity_stage w body = (t1, Inl e) \<Longrightarrow>
   post w backend attributes req = (t1, Inl e)"
  by (simp add: post_def run_defs)

lemma post_spam_threw:
  "json w req = Inr input \<Longrightarrow> get_prop input ''body'' = Inr body \<Longrightarrow> truthy body \<Longrightarrow>
   toxicity_stage w body = (t1, Inr perspective) \<Longrightarrow> spam_stage w req body = (t2, Inl e) \<Longrightarrow>
   post w backend attributes req = (t1 @ t2, Inl e)"
  by (simp add: post_def run_defs)

lemma post_delegates:
  "json w req = Inr input \<Longrightarrow> get_prop input ''body'' = Inr body \<Longrightarrow> truthy body \<Longrightarrow>
   toxicity_stage w body = (t1, Inr perspective) \<Longrightarrow> spam_stage w req body = (t2, Inr akismet) \<Longrightarrow>
   post w backend attributes req =
     (t1 @ t2 @ Backend (context_object input perspective akismet) req #
        (case backend (context_object input perspective akismet) req of
           Inl e \<Rightarrow> []
         | Inr result \<Rightarrow> [Send (JNum 201) (with_backend attributes [(''result'', result)])]),
      case backend (context_object input perspective akismet) req of
        Inl e \<Rightarrow> Inl e
      | Inr result \<Rightarrow> Inr JUndefined)"
  by (simp add: post_def run_defs split: sum.splits)

lemma cors_post:
  "req_method req = ''POST'' \<Longrightarrow>
   cors (dispatch w backend attributes) req =
     (CorsHeaders [''GET'', ''POST'', ''OPTIONS''] # fst (post w backend attributes req),
      snd (post w backend attributes req))"
  by (simp add: cors_def dispatch_def run_defs)

lemma handleErrors_resolved:
  "fn req = (t, Inr v) \<Longrightarrow> handleErrors w fn req = (t, Inr v)"
  by (simp add: handleErrors_def)

lemma handleErrors_rendered:
  assumes "fn req = (t, Inl e)" and "get_prop e ''stack'' = Inr stack"
    and "get_prop e ''statusCode'' = Inr statusCode" and "get_prop e ''message'' = Inr message"
    and "accepted_status w (js_or statusCode (JNum 500))"
  shows "handleErrors w fn req =
    (t @ (if env w ''NODE_ENV'' = Some ''dev'' \<and> truthy stack then [ConsoleError stack] else []) @
       [Send (js_or statusCode (JNum 500))
          (JObj [(''status'', js_or statusCode (JNum 500)), (''message'', message)])],
     Inr JUndefined)"
  using assms by (simp add: handleErrors_def run_defs Let_def)

lemma handleErrors_refused:
  assumes "fn req = (t, Inl e)" and "get_prop e ''stack'' = Inr stack"
    and "get_prop e ''statusCode'' = Inr statusCode" and "get_prop e ''message'' = Inr message"
    and "\<not> accepted_status w (js_or statusCode (JNum 500))"
  shows "handleErrors w fn req =
    (t @ (if env w ''NODE_ENV'' = Some ''dev'' \<and> truthy stack then [ConsoleError stack] else []),
     Inl rangeError)"
  using assms by (simp add: handleErrors_def run_defs Let_def)

lemma handleErrors_calls:
  "backend_calls (fst (handleErrors w fn req)) = backend_calls (fst (fn req)) \<and>
   analyze_calls (fst (handleErrors w fn req)) = analyze_calls (fst (fn req)) \<and>
   checkSpam_calls (fst (handleErrors w fn req)) = checkSpam_calls (fst (fn req))"
proof (cases "fn req")
  case (Pair t r)
  show ?thesis
  proof (cases r)
    case (Inr v)
    then show ?thesis using Pair by (simp add: handleErrors_resolved)
  next
    case (Inl e)
    show ?thesis
    proof (cases "get_prop e ''stack''")
      case l: (Inl x)
      then have "get_prop e ''statusCode'' = Inl (typeError ''statusCode'')"
        by (cases e) simp_all
      then show ?thesis using Pair Inl l by (simp add: handleErrors_def run_defs)
    next
      case r: (Inr stack)
      obtain sc m where "get_prop e ''statusCode'' = Inr sc" "get_prop e ''message'' = Inr m"
        using get_prop_defined [OF r] by blast
      then show ?thesis using Pair Inl r
        by (cases "accepted_status w (js_or sc (JNum 500))")
          (simp_all add: handleErrors_rendered handleErrors_refused)
    qed
  qed
qed

lemma createError_props:
  "get_prop (createError code msg) ''stack'' = Inr (JStr (''Error: '' @ msg))"
  "get_prop (createError code msg) ''statusCode'' = Inr (JNum code)"
  "get_prop (createError code msg) ''message'' = Inr (JStr msg)"
  by (simp_all add: createError_def)

lemma microfeedback_post_resolved:
  assumes "req_method req = ''POST''" and "post w backend attributes req = (t, Inr v)"
  shows "microfeedback w backend attributes req =
    (CorsHeaders [''GET'', ''POST'', ''OPTIONS''] # t, Inr v)"
  using assms by (simp add: microfeedback_def cors_post handleErrors_resolved)

lemma microfeedback_post_threw:
  assumes "req_method req = ''POST''" and "post w backend attributes req = (t, Inl e)"
    and "get_prop e ''stack'' = Inr stack"
    and "get_prop e ''statusCode'' = Inr statusCode" and "get_prop e ''message'' = Inr message"
    and "accepted_status w (js_or statusCode (JNum 500))"
  shows "microfeedback w backend attributes req =
    (CorsHeaders [''GET'', ''POST'', ''OPTIONS''] # t @
       (if env w ''NODE_ENV'' = Some ''dev'' \<and> truthy stack then [ConsoleError stack] else []) @
       [Send (js_or statusCode (JNum 500))
          (JObj [(''status'', js_or statusCode (JNum 500)), (''message'', message)])],
     Inr JUndefined)"
proof -
  have "cors (dispatch w backend attributes) req =
      (CorsHeaders [''GET'', ''POST'', ''OPTIONS''] # t, Inl e)"
    using assms(1,2) by (simp add: cors_post)
  from handleErrors_rendered [where fn = "cors (dispatch w backend attributes)",
      OF this assms(3,4,5,6)]
  show ?thesis by (simp add: microfeedback_def)
qed

lemma microfeedback_post_calls:
  assumes "req_method req = ''POST''"
  shows "backend_calls (fst (microfeedback w backend attributes req)) =
           backend_calls (fst (post w backend attributes req))"
    and "analyze_calls (fst (microfeedback w backend attributes req)) =
           analyze_calls (fst (post w backend attributes req))"
    and "checkSpam_calls (fst (microfeedback w backend attributes req)) =
           checkSpam_calls (fst (post w backend attributes req))"
  using assms handleErrors_calls [of w "cors (dispatch w backend attributes)" req]
  by (simp_all add: microfeedback_def cors_post)

lemma checkSpam_reached:
  assumes "req_method req = ''POST''"
    and "(c, p) \<in> set (checkSpam_calls (fst (microfeedback w backend attributes req)))"
  shows "\<exists>input body t1 perspective.
           json w req = Inr input \<and> get_prop input ''body'' = Inr body \<and> truthy body \<and>
           toxicity_stage w body = (t1, Inr perspective) \<and> akismetEnabled w \<and>
           c = akismet_options w req \<and> p = akismet_params req body"
proof -
  have mem: "(c, p) \<in> set (checkSpam_calls (fst (post w backend attributes req)))"
    using assms by (simp add: microfeedback_post_calls)
  show ?thesis
  proof (cases "json w req")
    case (Inl e)
    then show ?thesis using mem by (simp add: post_parse_failed)
  next
    case (Inr input)
    show ?thesis
    proof (cases "get_prop input ''body''")
      case (Inl e)
      then show ?thesis using mem Inr by (simp add: post_unreadable)
    next
      case body: (Inr body)
      show ?thesis
      proof (cases "truthy body")
        case False
        then show ?thesis using mem Inr body by (simp add: post_invalid)
      next
        case True
        obtain t1 r1 where tox: "toxicity_stage w body = (t1, r1)"
          by (cases "toxicity_stage w body")
        have t1: "checkSpam_calls t1 = []"
          using toxicity_stage_trace [of w body] tox by simp
        show ?thesis
        proof (cases r1)
          case (Inl e)
          then show ?thesis using mem Inr body True tox t1 by (simp add: post_toxicity_threw)
        next
          case perspective: (Inr perspective)
          obtain t2 r2 where spam: "spam_stage w req body = (t2, r2)"
            by (cases "spam_stage w req body")
          have t2: "checkSpam_calls t2 =
              (if akismetEnabled w then [(akismet_options w req, akismet_params req body)] else [])"
            using spam_stage_trace [of w req body] spam by simp
          have "(c, p) \<in> set (checkSpam_calls t2)"
          proof (cases r2)
            case (Inl e)
            then show ?thesis using mem Inr body True tox perspective spam t1
              by (simp add: post_spam_threw)
          next
            case akismet: (Inr akismet)
            from post_delegates [OF Inr body True tox [unfolded perspective] spam [unfolded akismet]]
            show ?thesis using mem t1 by (simp split: sum.splits)
          qed
          then show ?thesis using t2 Inr body True tox perspective
            by (simp split: if_splits)
        qed
      qed
    qed
  qed
qed

lemmas example_defs = example_world_def example_backend_def failing_backend_def
  post_request_def get_request_def nice_app_def score_response_def

lemmas handler_defs = microfeedback_def handleErrors_def cors_def dispatch_def post_def
  toxicity_stage_def toxicity_attempt_def extract_toxicity_def spam_stage_def log_error_def
  perspectiveEnabled_def akismetEnabled_def allowSpam_def env_flag_def env_val_def
  perspective_options_def analyze_options_def akismet_options_def akismet_params_def
  context_object_def with_backend_def info_def header_def js_or_def createError_def
  typeError_def rangeError_def accepted_status_def status_int_def to_int32_def Let_def
  run_defs

lemma extract_toxicity_value:
  "snd (extract_toxicity r) = Inr v \<Longrightarrow> \<exists>score. v = JObj [(''toxicity'', score)]"
  by (auto simp add: extract_toxicity_def run_defs and_then_def split: sum.splits prod.splits)

lemma extract_toxicity_reads:
  assumes "get_prop response ''attributeScores'' = Inr scores"
    and "get_prop scores ''TOXICITY'' = Inr tox"
    and "get_prop tox ''summaryScore'' = Inr summary"
    and "get_prop summary ''value'' = Inr score"
  shows "extract_toxicity response = ([], Inr (JObj [(''toxicity'', score)]))"
  using assms by (simp add: extract_toxicity_def run_defs)

lemma toxicity_attempt_value:
  "snd (toxicity_attempt w body) = Inr v \<Longrightarrow> \<exists>score. v = JObj [(''toxicity'', score)]"
  by (cases "analyze w (perspective_options w) body analyze_options")
    (auto simp add: toxicity_attempt_def run_defs dest: extract_toxicity_value)

lemma toxicity_stage_value:
  assumes "toxicity_stage w body = (t, Inr v)"
  shows "v = JNull \<or> (\<exists>score. v = JObj [(''toxicity'', score)])"
proof (cases "perspectiveEnabled w")
  case False
  then show ?thesis using assms by (simp add: toxicity_stage_disabled)
next
  case True
  show ?thesis
  proof (cases "snd (toxicity_attempt w body)")
    case (Inr u)
    then show ?thesis
      using assms toxicity_stage_ok [OF True Inr] toxicity_attempt_value [OF Inr] by simp
  next
    case (Inl e)
    have "toxicity_attempt w body =
        ([Analyze (perspective_options w) body analyze_options], Inl e)"
      using Inl toxicity_attempt_fst [of w body] by (cases "toxicity_attempt w body") simp
    then have "toxicity_stage w body =
        ([Analyze (perspective_options w) body analyze_options] @
           fst (and_then (log_error e) (\<lambda>_. done_with JNull)),
         snd (and_then (log_error e) (\<lambda>_. done_with JNull)))"
      using True by (simp add: toxicity_stage_def)
    then show ?thesis using assms log_error_cases [of e]
      by (auto simp add: run_defs)
  qed
qed

lemma spam_stage_value:
  assumes "spam_stage w req body = (t, Inr v)"
  shows "v = JNull \<or> (\<exists>spam. v = JObj [(''spam'', spam)])"
proof (cases "akismetEnabled w")
  case False
  then show ?thesis using assms by (simp add: spam_stage_disabled)
next
  case True
  show ?thesis
  proof (cases "checkSpam w (akismet_options w req) (akismet_params req body)")
    case (Inr spam)
    then show ?thesis using assms spam_stage_verdict [OF True Inr]
      by (auto split: if_splits)
  next
    case (Inl e)
    then show ?thesis using True assms log_error_cases [of e]
      by (auto simp add: spam_stage_def run_defs)
  qed
qed

text \<open>
  When the spam stage leaves a value: the check is disabled, or it answers and does not
  block, or it rejects with a value that \<^verbatim>\<open>stack\<close> can be read from.
\<close>

lemma spam_stage_leaves_value:
  "(\<exists>t akismet. spam_stage w req body = (t, Inr akismet)) \<longleftrightarrow>
   (akismetEnabled w \<longrightarrow>
      (case checkSpam w (akismet_options w req) (akismet_params req body) of
         Inl e \<Rightarrow> e \<noteq> JNull \<and> e \<noteq> JUndefined
       | Inr spam \<Rightarrow> \<not> (truthy spam \<and> \<not> allowSpam w)))"
proof (cases "akismetEnabled w")
  case False
  then show ?thesis by (simp add: spam_stage_disabled)
next
  case True
  show ?thesis
  proof (cases "checkSpam w (akismet_options w req) (akismet_params req body)")
    case (Inr spam)
    then show ?thesis using True spam_stage_verdict [OF True Inr] by auto
  next
    case (Inl e)
    then show ?thesis using True
      by (cases e) (simp_all add: spam_stage_def log_error_def run_defs)
  qed
qed

lemma post_threw_unsent:
  assumes "snd (post w backend attributes req) = Inl e"
  shows "sends (fst (post w backend attributes req)) = []"
proof (cases "json w req")
  case (Inl x)
  then show ?thesis by (simp add: post_parse_failed)
next
  case (Inr input)
  show ?thesis
  proof (cases "get_prop input ''body''")
    case (Inl x)
    then show ?thesis using Inr by (simp add: post_unreadable)
  next
    case body: (Inr body)
    show ?thesis
    proof (cases "truthy body")
      case False
      then show ?thesis using Inr body by (simp add: post_invalid)
    next
      case True
      obtain t1 r1 where tox: "toxicity_stage w body = (t1, r1)"
        by (cases "toxicity_stage w body")
      have t1: "sends t1 = []" using toxicity_stage_trace [of w body] tox by simp
      show ?thesis
      proof (cases r1)
        case (Inl x)
        then show ?thesis using Inr body True tox t1 by (simp add: post_toxicity_threw)
      next
        case perspective: (Inr perspective)
        obtain t2 r2 where spam: "spam_stage w req body = (t2, r2)"
          by (cases "spam_stage w req body")
        have t2: "sends t2 = []" using spam_stage_trace [of w req body] spam by simp
        show ?thesis
        proof (cases r2)
          case (Inl x)
          then show ?thesis using Inr body True tox perspective spam t1 t2
            by (simp add: post_spam_threw)
        next
          case akismet: (Inr akismet)
          from post_delegates [OF Inr body True tox [unfolded perspective] spam [unfolded akismet]]
          show ?thesis using assms t1 t2 by (simp split: sum.splits)
        qed
      qed
    qed
  qed
qed

lemma dispatcher_threw_unsent:
  assumes "snd (cors (dispatch w backend attributes) req) = Inl e"
  shows "sends (fst (cors (dispatch w backend attributes) req)) = []"
proof (cases "req_method req = ''POST''")
  case True
  then show ?thesis using assms post_threw_unsent [of w backend attributes req e]
    by (simp add: cors_post)
next
  case False
  then show ?thesis using assms
    by (simp add: cors_def dispatch_def run_defs split: if_splits)
qed

section \<open>The claims\<close>

subsection \<open>C1: a valid POST with both checks disabled\<close>

text \<open>
  Claim C1. A \<^verbatim>\<open>POST\<close> request whose parsed payload has a truthy \<^verbatim>\<open>body\<close>, with both
  checks disabled: the backend is called exactly once, and when it returns a value the
  one response is status 201 with \<^verbatim>\<open>result\<close> equal to that value.
\<close>

theorem post_without_checks:
  assumes "req_method req = ''POST''" and "json w req = Inr input"
    and "get_prop input ''body'' = Inr body" and "truthy body"
    and "\<not> perspectiveEnabled w" and "\<not> akismetEnabled w"
  shows "backend_calls (fst (microfeedback w backend attributes req)) =
      [(JObj [(''input'', input), (''perspective'', JNull), (''akismet'', JNull)], req)] \<and>
    (\<forall>result.
       backend (JObj [(''input'', input), (''perspective'', JNull), (''akismet'', JNull)]) req =
         Inr result \<longrightarrow>
       sends (fst (microfeedback w backend attributes req)) =
         [(JNum 201,
           JObj ((''result'', result) #
                 (if truthy attributes then [(''backend'', attributes)] else [])))])"
proof -
  let ?ctx = "context_object input JNull JNull"
  note p = post_delegates [OF assms(2,3,4) toxicity_stage_disabled [OF assms(5)]
      spam_stage_disabled [OF assms(6)], of backend attributes]
  have calls: "backend_calls (fst (post w backend attributes req)) = [(?ctx, req)]"
    using p by (simp split: sum.splits)
  have "sends (fst (microfeedback w backend attributes req)) =
      [(JNum 201, with_backend attributes [(''result'', result)])]"
    if "backend ?ctx req = Inr result" for result
  proof -
    have "post w backend attributes req =
        ([Backend ?ctx req, Send (JNum 201) (with_backend attributes [(''result'', result)])],
         Inr JUndefined)"
      using p that by simp
    from microfeedback_post_resolved [OF assms(1) this] show ?thesis by simp
  qed
  then show ?thesis using calls assms(1)
    by (simp add: microfeedback_post_calls context_object_def with_backend_def)
qed

theorem post_without_checks_witness:
  "req_method post_request = ''POST'' \<and>
   json (example_world Map.empty (Inr nice_app) (Inr JNull) (Inr JNull)) post_request = Inr nice_app \<and>
   get_prop nice_app ''body'' = Inr (JStr ''nice app!'') \<and>
   truthy (JStr ''nice app!'') \<and>
   \<not> perspectiveEnabled (example_world Map.empty (Inr nice_app) (Inr JNull) (Inr JNull)) \<and>
   \<not> akismetEnabled (example_world Map.empty (Inr nice_app) (Inr JNull) (Inr JNull)) \<and>
   backend_calls (fst (microfeedback (example_world Map.empty (Inr nice_app) (Inr JNull) (Inr JNull))
       example_backend JUndefined post_request)) =
     [(JObj [(''input'', nice_app), (''perspective'', JNull), (''akismet'', JNull)], post_request)] \<and>
   sends (fst (microfeedback (example_world Map.empty (Inr nice_app) (Inr JNull) (Inr JNull))
       example_backend JUndefined post_request)) =
     [(JNum 201, JObj [(''result'', JObj [(''status'', JStr ''ok'')])])]"
proof -
  let ?w = "example_world Map.empty (Inr nice_app) (Inr JNull) (Inr JNull)"
  have h: "req_method post_request = ''POST''" "json ?w post_request = Inr nice_app"
    "get_prop nice_app ''body'' = Inr (JStr ''nice app!'')" "truthy (JStr ''nice app!'')"
    "\<not> perspectiveEnabled ?w" "\<not> akismetEnabled ?w"
    by (simp_all add: example_defs perspectiveEnabled_def akismetEnabled_def env_flag_def
        env_val_def)
  from post_without_checks [OF h, of example_backend JUndefined] show ?thesis using h
    by (simp add: example_backend_def)
qed

subsection \<open>C2: spam is blocked\<close>

text \<open>
  Claim C2. A \<^verbatim>\<open>POST\<close> request in whose run the spam checker is called and answers with a
  truthy verdict, while the override \<^verbatim>\<open>ALLOW_SPAM\<close> is not active, is answered with status
  400 and the message \<^verbatim>\<open>Spam detected.\<close>, and the backend is not called.
\<close>

theorem spam_blocked:
  assumes "req_method req = ''POST''"
    and "(c, p) \<in> set (checkSpam_calls (fst (microfeedback w backend attributes req)))"
    and "checkSpam w c p = Inr verdict" and "truthy verdict" and "\<not> allowSpam w"
  shows "sends (fst (microfeedback w backend attributes req)) =
           [(JNum 400, JObj [(''status'', JNum 400), (''message'', JStr ''Spam detected.'')])] \<and>
         backend_calls (fst (microfeedback w backend attributes req)) = []"
proof -
  obtain input body t1 perspective where
    h: "json w req = Inr input" "get_prop input ''body'' = Inr body" "truthy body"
       "toxicity_stage w body = (t1, Inr perspective)" "akismetEnabled w"
       "c = akismet_options w req" "p = akismet_params req body"
    using checkSpam_reached [OF assms(1,2)] by blast
  have t1: "sends t1 = []" "backend_calls t1 = []"
    using toxicity_stage_trace [of w body] h(4) by simp_all
  have nn: "verdict \<noteq> JNull" using assms(4) by auto
  have "spam_stage w req body =
      ([CheckSpam (akismet_options w req) (akismet_params req body)],
       Inl (createError 400 ''Spam detected.''))"
    using spam_stage_verdict [of w req body verdict] h(5,6,7) assms(3,4,5) nn by simp
  from post_spam_threw [OF h(1,2,3,4) this]
  have "post w backend attributes req =
      (t1 @ [CheckSpam (akismet_options w req) (akismet_params req body)],
       Inl (createError 400 ''Spam detected.''))" .
  from microfeedback_post_threw [OF assms(1) this createError_props]
  show ?thesis using t1 by (simp add: js_or_def)
qed

theorem spam_blocked_witness:
  "req_method post_request = ''POST'' \<and>
   (akismet_options (example_world [''AKISMET_API_KEY'' \<mapsto> ''key''] (Inr nice_app) (Inr JNull)
        (Inr (JBool True))) post_request,
    akismet_params post_request (JStr ''nice app!'')) \<in>
     set (checkSpam_calls (fst (microfeedback
       (example_world [''AKISMET_API_KEY'' \<mapsto> ''key''] (Inr nice_app) (Inr JNull) (Inr (JBool True)))
       example_backend JUndefined post_request))) \<and>
   checkSpam (example_world [''AKISMET_API_KEY'' \<mapsto> ''key''] (Inr nice_app) (Inr JNull)
        (Inr (JBool True)))
     (akismet_options (example_world [''AKISMET_API_KEY'' \<mapsto> ''key''] (Inr nice_app) (Inr JNull)
        (Inr (JBool True))) post_request)
     (akismet_params post_request (JStr ''nice app!'')) = Inr (JBool True) \<and>
   truthy (JBool True) \<and>
   \<not> allowSpam (example_world [''AKISMET_API_KEY'' \<mapsto> ''key''] (Inr nice_app) (Inr JNull)
        (Inr (JBool True))) \<and>
   sends (fst (microfeedback
       (example_world [''AKISMET_API_KEY'' \<mapsto> ''key''] (Inr nice_app) (Inr JNull) (Inr (JBool True)))
       example_backend JUndefined post_request)) =
     [(JNum 400, JObj [(''status'', JNum 400), (''message'', JStr ''Spam detected.'')])] \<and>
   backend_calls (fst (microfeedback
       (example_world [''AKISMET_API_KEY'' \<mapsto> ''key''] (Inr nice_app) (Inr JNull) (Inr (JBool True)))
       example_backend JUndefined post_request)) = []"
proof -
  let ?w = "example_world [''AKISMET_API_KEY'' \<mapsto> ''key''] (Inr nice_app) (Inr JNull)
    (Inr (JBool True))"
  have h: "req_method post_request = ''POST''"
    "(akismet_options ?w post_request, akismet_params post_request (JStr ''nice app!'')) \<in>
       set (checkSpam_calls (fst (microfeedback ?w example_backend JUndefined post_request)))"
    "checkSpam ?w (akismet_options ?w post_request)
       (akismet_params post_request (JStr ''nice app!'')) = Inr (JBool True)"
    "truthy (JBool True)" "\<not> allowSpam ?w"
    by (simp_all add: example_defs handler_defs)
  from spam_blocked [OF h] show ?thesis using h by simp
qed

subsection \<open>C3: the body is required\<close>

text \<open>
  Claim C3 says that every \<^verbatim>\<open>POST\<close> request whose parsed payload lacks a truthy \<^verbatim>\<open>body\<close>
  is answered with status 422. The code misses one payload: for the JSON text \<^verbatim>\<open>null\<close>,
  \<^verbatim>\<open>json\<close> gives \<^verbatim>\<open>null\<close>, the read \<^verbatim>\<open>input.body\<close> of line 62 throws a \<^verbatim>\<open>TypeError\<close> before
  the test is made, and the error boundary answers with status 500. The backend is not
  called.
\<close>

theorem post_null_payload:
  "json (example_world Map.empty (Inr JNull) (Inr JNull) (Inr JNull)) post_request = Inr JNull \<and>
   get_prop JNull ''body'' = Inl (typeError ''body'') \<and>
   map fst (sends (fst (microfeedback (example_world Map.empty (Inr JNull) (Inr JNull) (Inr JNull))
       example_backend JUndefined post_request))) = [JNum 500] \<and>
   backend_calls (fst (microfeedback (example_world Map.empty (Inr JNull) (Inr JNull) (Inr JNull))
       example_backend JUndefined post_request)) = []"
  by (simp add: example_defs handler_defs)

text \<open>
  On every other payload the validation does what the claim says: when the read of
  \<^verbatim>\<open>body\<close> gives a value, which it does on every object, array and primitive value but
  \<^verbatim>\<open>null\<close>, and the value is falsy, the answer is status 422 with the message
  \<^verbatim>\<open>"body" is required in request payload\<close>, and the backend is not called.
\<close>

lemma post_body_required:
  assumes "req_method req = ''POST''" and "json w req = Inr input"
    and "get_prop input ''body'' = Inr body" and "\<not> truthy body"
  shows "sends (fst (microfeedback w backend attributes req)) =
      [(JNum 422,
        JObj [(''status'', JNum 422),
              (''message'', JStr ''\"body\" is required in request payload'')])] \<and>
    backend_calls (fst (microfeedback w backend attributes req)) = []"
proof -
  note p = post_invalid [OF assms(2,3,4), of backend attributes]
  from microfeedback_post_threw [OF assms(1) p createError_props]
  show ?thesis by (simp add: js_or_def)
qed

lemma post_body_required_witness:
  "req_method post_request = ''POST'' \<and>
   json (example_world Map.empty (Inr (JObj [])) (Inr JNull) (Inr JNull)) post_request = Inr (JObj []) \<and>
   get_prop (JObj []) ''body'' = Inr JUndefined \<and>
   \<not> truthy JUndefined \<and>
   sends (fst (microfeedback (example_world Map.empty (Inr (JObj [])) (Inr JNull) (Inr JNull))
       example_backend JUndefined post_request)) =
     [(JNum 422,
       JObj [(''status'', JNum 422),
             (''message'', JStr ''\"body\" is required in request payload'')])] \<and>
   backend_calls (fst (microfeedback (example_world Map.empty (Inr (JObj [])) (Inr JNull) (Inr JNull))
       example_backend JUndefined post_request)) = []"
proof -
  let ?w = "example_world Map.empty (Inr (JObj [])) (Inr JNull) (Inr JNull)"
  have h: "req_method post_request = ''POST''" "json ?w post_request = Inr (JObj [])"
    "get_prop (JObj []) ''body'' = Inr JUndefined" "\<not> truthy JUndefined"
    by (simp_all add: example_defs)
  from post_body_required [OF h, of example_backend JUndefined] show ?thesis using h by simp
qed

subsection \<open>C4: the context of the backend\<close>

text \<open>
  Claim C4 as stated names the second property \<^verbatim>\<open>toxicity\<close>. With the toxicity check
  enabled and a score of 0.1, the context the backend receives has the toxicity result
  under \<^verbatim>\<open>perspective\<close>, and reading its \<^verbatim>\<open>toxicity\<close> gives \<^verbatim>\<open>undefined\<close>.
\<close>

theorem delegate_context_counterexample:
  "backend_calls (fst (microfeedback
      (example_world [''PERSPECTIVE_API_KEY'' \<mapsto> ''key''] (Inr nice_app)
         (Inr (score_response (JObj [(''value'', JNum 0.1)]))) (Inr JNull))
      example_backend JUndefined post_request)) =
     [(JObj [(''input'', nice_app), (''perspective'', JObj [(''toxicity'', JNum 0.1)]),
             (''akismet'', JNull)], post_request)] \<and>
   get_prop (JObj [(''input'', nice_app), (''perspective'', JObj [(''toxicity'', JNum 0.1)]),
                   (''akismet'', JNull)]) ''toxicity'' = Inr JUndefined"
  by (simp add: example_defs handler_defs)

text \<open>
  Claim C4, as the code has it. A \<^verbatim>\<open>POST\<close> request that passes validation and whose two
  stages leave a value (the spam stage does not block): the backend is called once, with
  the request and a context object of the three properties \<^verbatim>\<open>input\<close>, \<^verbatim>\<open>perspective\<close> and
  \<^verbatim>\<open>akismet\<close>. \<^verbatim>\<open>input\<close> is the parsed payload, \<^verbatim>\<open>perspective\<close> is \<^verbatim>\<open>null\<close> or
  \<^verbatim>\<open>{toxicity: score}\<close>, \<^verbatim>\<open>akismet\<close> is \<^verbatim>\<open>null\<close> or \<^verbatim>\<open>{spam: verdict}\<close>.
\<close>

theorem delegate_context:
  assumes "req_method req = ''POST''" and "json w req = Inr input"
    and "get_prop input ''body'' = Inr body" and "truthy body"
    and "toxicity_stage w body = (t1, Inr perspective)"
    and "spam_stage w req body = (t2, Inr akismet)"
  shows "backend_calls (fst (microfeedback w backend attributes req)) =
      [(JObj [(''input'', input), (''perspective'', perspective), (''akismet'', akismet)], req)] \<and>
    (perspective = JNull \<or> (\<exists>score. perspective = JObj [(''toxicity'', score)])) \<and>
    (akismet = JNull \<or> (\<exists>spam. akismet = JObj [(''spam'', spam)]))"
proof -
  have t: "backend_calls t1 = []" "backend_calls t2 = []"
    using toxicity_stage_trace [of w body] spam_stage_trace [of w req body] assms(5,6)
    by simp_all
  from post_delegates [OF assms(2,3,4,5,6), of backend attributes]
  have "backend_calls (fst (post w backend attributes req)) =
      [(context_object input perspective akismet, req)]"
    using t by (simp split: sum.splits)
  then show ?thesis
    using assms(1) toxicity_stage_value [OF assms(5)] spam_stage_value [OF assms(6)]
    by (simp add: microfeedback_post_calls context_object_def)
qed

theorem delegate_context_witness:
  "req_method post_request = ''POST'' \<and>
   json (example_world [''PERSPECTIVE_API_KEY'' \<mapsto> ''key'', ''AKISMET_API_KEY'' \<mapsto> ''key'']
        (Inr nice_app) (Inr (score_response (JObj [(''value'', JNum 0.1)]))) (Inr (JBool False)))
     post_request = Inr nice_app \<and>
   get_prop nice_app ''body'' = Inr (JStr ''nice app!'') \<and>
   truthy (JStr ''nice app!'') \<and>
   snd (toxicity_stage
      (example_world [''PERSPECTIVE_API_KEY'' \<mapsto> ''key'', ''AKISMET_API_KEY'' \<mapsto> ''key'']
        (Inr nice_app) (Inr (score_response (JObj [(''value'', JNum 0.1)]))) (Inr (JBool False)))
      (JStr ''nice app!'')) = Inr (JObj [(''toxicity'', JNum 0.1)]) \<and>
   snd (spam_stage
      (example_world [''PERSPECTIVE_API_KEY'' \<mapsto> ''key'', ''AKISMET_API_KEY'' \<mapsto> ''key'']
        (Inr nice_app) (Inr (score_response (JObj [(''value'', JNum 0.1)]))) (Inr (JBool False)))
      post_request (JStr ''nice app!'')) = Inr (JObj [(''spam'', JBool False)]) \<and>
   backend_calls (fst (microfeedback
      (example_world [''PERSPECTIVE_API_KEY'' \<mapsto> ''key'', ''AKISMET_API_KEY'' \<mapsto> ''key'']
        (Inr nice_app) (Inr (score_response (JObj [(''value'', JNum 0.1)]))) (Inr (JBool False)))
      example_backend JUndefined post_request)) =
     [(JObj [(''input'', nice_app), (''perspective'', JObj [(''toxicity'', JNum 0.1)]),
             (''akismet'', JObj [(''spam'', JBool False)])], post_request)]"
proof -
  let ?w = "example_world [''PERSPECTIVE_API_KEY'' \<mapsto> ''key'', ''AKISMET_API_KEY'' \<mapsto> ''key'']
    (Inr nice_app) (Inr (score_response (JObj [(''value'', JNum 0.1)]))) (Inr (JBool False))"
  have h: "req_method post_request = ''POST''" "json ?w post_request = Inr nice_app"
    "get_prop nice_app ''body'' = Inr (JStr ''nice app!'')" "truthy (JStr ''nice app!'')"
    "toxicity_stage ?w (JStr ''nice app!'') =
       ([Analyze (perspective_options ?w) (JStr ''nice app!'') analyze_options],
        Inr (JObj [(''toxicity'', JNum 0.1)]))"
    "spam_stage ?w post_request (JStr ''nice app!'') =
       ([CheckSpam (akismet_options ?w post_request)
           (akismet_params post_request (JStr ''nice app!''))],
        Inr (JObj [(''spam'', JBool False)]))"
    by (simp_all add: example_defs handler_defs)
  from delegate_context [OF h, of example_backend JUndefined] show ?thesis using h by simp
qed

subsection \<open>C5: a failed toxicity check is absorbed\<close>

text \<open>
  Claim C5 as stated counts every malformed response as a failure. A response that has
  \<^verbatim>\<open>attributeScores.TOXICITY.summaryScore\<close> but no \<^verbatim>\<open>value\<close> in it makes no read throw: the
  backend receives \<^verbatim>\<open>{toxicity: undefined}\<close>, not \<^verbatim>\<open>null\<close>.
\<close>

theorem toxicity_failure_counterexample:
  "perspectiveEnabled (example_world [''PERSPECTIVE_API_KEY'' \<mapsto> ''key''] (Inr nice_app)
      (Inr (score_response (JObj []))) (Inr JNull)) \<and>
   backend_calls (fst (microfeedback
      (example_world [''PERSPECTIVE_API_KEY'' \<mapsto> ''key''] (Inr nice_app)
         (Inr (score_response (JObj []))) (Inr JNull))
      example_backend JUndefined post_request)) =
     [(JObj [(''input'', nice_app), (''perspective'', JObj [(''toxicity'', JUndefined)]),
             (''akismet'', JNull)], post_request)] \<and>
   JObj [(''toxicity'', JUndefined)] \<noteq> JNull"
  by (simp add: example_defs handler_defs)

text \<open>
  Claim C5, as the code has it. A \<^verbatim>\<open>POST\<close> request that passes validation, with the
  toxicity check enabled, whose \<^verbatim>\<open>try\<close> block throws: the call rejects, or a read on the
  way to \<^verbatim>\<open>summaryScore.value\<close> throws. The thrown value is one a property can be read
  from, so neither \<^verbatim>\<open>null\<close> nor \<^verbatim>\<open>undefined\<close>. Then the toxicity stage leaves \<^verbatim>\<open>null\<close>,
  and when the spam stage leaves a value the backend is called, once, with \<^verbatim>\<open>perspective\<close>
  equal to \<^verbatim>\<open>null\<close>. By \<open>spam_stage_leaves_value\<close> the spam stage leaves a value exactly
  when it neither blocks (a truthy verdict while the override is off) nor throws in its
  own \<^verbatim>\<open>catch\<close> block (a rejection of \<^verbatim>\<open>checkSpam\<close> with \<^verbatim>\<open>null\<close> or \<^verbatim>\<open>undefined\<close>).
\<close>

theorem toxicity_failure_absorbed:
  assumes "req_method req = ''POST''" and "json w req = Inr input"
    and "get_prop input ''body'' = Inr body" and "truthy body"
    and "perspectiveEnabled w"
    and "snd (toxicity_attempt w body) = Inl error"
    and "get_prop error ''stack'' = Inr stack"
    and "spam_stage w req body = (t2, Inr akismet)"
  shows "snd (toxicity_stage w body) = Inr JNull \<and>
    backend_calls (fst (microfeedback w backend attributes req)) =
      [(JObj [(''input'', input), (''perspective'', JNull), (''akismet'', akismet)], req)]"
proof -
  note tox = toxicity_stage_failed [OF assms(5,6,7)]
  have t2: "backend_calls t2 = []"
    using spam_stage_trace [of w req body] assms(8) by simp
  from post_delegates [OF assms(2,3,4) tox assms(8), of backend attributes]
  have "backend_calls (fst (post w backend attributes req)) =
      [(context_object input JNull akismet, req)]"
    using t2 by (simp split: sum.splits)
  then show ?thesis using assms(1) tox
    by (simp add: microfeedback_post_calls context_object_def)
qed

theorem toxicity_failure_absorbed_witness:
  "req_method post_request = ''POST'' \<and>
   json (example_world [''PERSPECTIVE_API_KEY'' \<mapsto> ''key''] (Inr nice_app)
        (Inl (JObj [(''message'', JStr ''socket hang up'')])) (Inr JNull)) post_request =
     Inr nice_app \<and>
   get_prop nice_app ''body'' = Inr (JStr ''nice app!'') \<and>
   truthy (JStr ''nice app!'') \<and>
   perspectiveEnabled (example_world [''PERSPECTIVE_API_KEY'' \<mapsto> ''key''] (Inr nice_app)
        (Inl (JObj [(''message'', JStr ''socket hang up'')])) (Inr JNull)) \<and>
   snd (toxicity_attempt (example_world [''PERSPECTIVE_API_KEY'' \<mapsto> ''key''] (Inr nice_app)
        (Inl (JObj [(''message'', JStr ''socket hang up'')])) (Inr JNull)) (JStr ''nice app!'')) =
     Inl (JObj [(''message'', JStr ''socket hang up'')]) \<and>
   get_prop (JObj [(''message'', JStr ''socket hang up'')]) ''stack'' = Inr JUndefined \<and>
   spam_stage (example_world [''PERSPECTIVE_API_KEY'' \<mapsto> ''key''] (Inr nice_app)
        (Inl (JObj [(''message'', JStr ''socket hang up'')])) (Inr JNull)) post_request
        (JStr ''nice app!'') = ([], Inr JNull) \<and>
   snd (toxicity_stage (example_world [''PERSPECTIVE_API_KEY'' \<mapsto> ''key''] (Inr nice_app)
        (Inl (JObj [(''message'', JStr ''socket hang up'')])) (Inr JNull)) (JStr ''nice app!'')) =
     Inr JNull \<and>
   backend_calls (fst (microfeedback
      (example_world [''PERSPECTIVE_API_KEY'' \<mapsto> ''key''] (Inr nice_app)
        (Inl (JObj [(''message'', JStr ''socket hang up'')])) (Inr JNull))
      example_backend JUndefined post_request)) =
     [(JObj [(''input'', nice_app), (''perspective'', JNull), (''akismet'', JNull)],
       post_request)]"
proof -
  let ?w = "example_world [''PERSPECTIVE_API_KEY'' \<mapsto> ''key''] (Inr nice_app)
    (Inl (JObj [(''message'', JStr ''socket hang up'')])) (Inr JNull)"
  have h: "req_method post_request = ''POST''" "json ?w post_request = Inr nice_app"
    "get_prop nice_app ''body'' = Inr (JStr ''nice app!'')" "truthy (JStr ''nice app!'')"
    "perspectiveEnabled ?w"
    "snd (toxicity_attempt ?w (JStr ''nice app!'')) =
       Inl (JObj [(''message'', JStr ''socket hang up'')])"
    "get_prop (JObj [(''message'', JStr ''socket hang up'')]) ''stack'' = Inr JUndefined"
    "spam_stage ?w post_request (JStr ''nice app!'') = ([], Inr JNull)"
    by (simp_all add: example_defs handler_defs)
  from toxicity_failure_absorbed [OF h, of example_backend JUndefined]
  show ?thesis using h by simp
qed

subsection \<open>C6: spam is let through when allowed\<close>

text \<open>
  Claim C6. A \<^verbatim>\<open>POST\<close> request in whose run the spam checker is called and answers with a
  truthy verdict, while the override \<^verbatim>\<open>ALLOW_SPAM\<close> is active: the backend is called, once,
  and the \<^verbatim>\<open>akismet\<close> of its context is \<^verbatim>\<open>{spam: verdict}\<close>, which is \<^verbatim>\<open>{spam: true}\<close> for
  the verdict \<^verbatim>\<open>true\<close>.
\<close>

theorem spam_allowed:
  assumes "req_method req = ''POST''"
    and "(c, p) \<in> set (checkSpam_calls (fst (microfeedback w backend attributes req)))"
    and "checkSpam w c p = Inr verdict" and "truthy verdict" and "allowSpam w"
  shows "\<exists>input perspective.
           backend_calls (fst (microfeedback w backend attributes req)) =
             [(JObj [(''input'', input), (''perspective'', perspective),
                     (''akismet'', JObj [(''spam'', verdict)])], req)]"
proof -
  obtain input body t1 perspective where
    h: "json w req = Inr input" "get_prop input ''body'' = Inr body" "truthy body"
       "toxicity_stage w body = (t1, Inr perspective)" "akismetEnabled w"
       "c = akismet_options w req" "p = akismet_params req body"
    using checkSpam_reached [OF assms(1,2)] by blast
  have t1: "backend_calls t1 = []"
    using toxicity_stage_trace [of w body] h(4) by simp
  have nn: "verdict \<noteq> JNull" using assms(4) by auto
  have "spam_stage w req body =
      ([CheckSpam (akismet_options w req) (akismet_params req body)],
       Inr (JObj [(''spam'', verdict)]))"
    using spam_stage_verdict [of w req body verdict] h(5,6,7) assms(3,4,5) nn by simp
  from post_delegates [OF h(1,2,3,4) this]
  have "backend_calls (fst (post w backend attributes req)) =
      [(context_object input perspective (JObj [(''spam'', verdict)]), req)]"
    using t1 by (simp split: sum.splits)
  then show ?thesis using assms(1)
    by (simp add: microfeedback_post_calls context_object_def)
qed

theorem spam_allowed_witness:
  "req_method post_request = ''POST'' \<and>
   (akismet_options (example_world [''AKISMET_API_KEY'' \<mapsto> ''key'', ''ALLOW_SPAM'' \<mapsto> ''true'']
        (Inr nice_app) (Inr JNull) (Inr (JBool True))) post_request,
    akismet_params post_request (JStr ''nice app!'')) \<in>
     set (checkSpam_calls (fst (microfeedback
       (example_world [''AKISMET_API_KEY'' \<mapsto> ''key'', ''ALLOW_SPAM'' \<mapsto> ''true'']
          (Inr nice_app) (Inr JNull) (Inr (JBool True)))
       example_backend JUndefined post_request))) \<and>
   checkSpam (example_world [''AKISMET_API_KEY'' \<mapsto> ''key'', ''ALLOW_SPAM'' \<mapsto> ''true'']
        (Inr nice_app) (Inr JNull) (Inr (JBool True)))
     (akismet_options (example_world [''AKISMET_API_KEY'' \<mapsto> ''key'', ''ALLOW_SPAM'' \<mapsto> ''true'']
        (Inr nice_app) (Inr JNull) (Inr (JBool True))) post_request)
     (akismet_params post_request (JStr ''nice app!'')) = Inr (JBool True) \<and>
   truthy (JBool True) \<and>
   allowSpam (example_world [''AKISMET_API_KEY'' \<mapsto> ''key'', ''ALLOW_SPAM'' \<mapsto> ''true'']
        (Inr nice_app) (Inr JNull) (Inr (JBool True))) \<and>
   (\<exists>input perspective.
      backend_calls (fst (microfeedback
         (example_world [''AKISMET_API_KEY'' \<mapsto> ''key'', ''ALLOW_SPAM'' \<mapsto> ''true'']
            (Inr nice_app) (Inr JNull) (Inr (JBool True)))
         example_backend JUndefined post_request)) =
        [(JObj [(''input'', input), (''perspective'', perspective),
                (''akismet'', JObj [(''spam'', JBool True)])], post_request)])"
proof -
  let ?w = "example_world [''AKISMET_API_KEY'' \<mapsto> ''key'', ''ALLOW_SPAM'' \<mapsto> ''true'']
    (Inr nice_app) (Inr JNull) (Inr (JBool True))"
  have h: "req_method post_request = ''POST''"
    "(akismet_options ?w post_request, akismet_params post_request (JStr ''nice app!'')) \<in>
       set (checkSpam_calls (fst (microfeedback ?w example_backend JUndefined post_request)))"
    "checkSpam ?w (akismet_options ?w post_request)
       (akismet_params post_request (JStr ''nice app!'')) = Inr (JBool True)"
    "truthy (JBool True)" "allowSpam ?w"
    by (simp_all add: example_defs handler_defs)
  from spam_allowed [OF h] show ?thesis using h by simp
qed

subsection \<open>C7: the error boundary\<close>

text \<open>
  Claim C7 as stated gives an error with a numeric status code that code as its status.
  The backend throws an error made by \<^verbatim>\<open>createError(0, 'Not sent')\<close>: its status code is
  the number 0, and the response has status 500.
\<close>

theorem error_rendered_counterexample:
  "get_prop (createError 0 ''Not sent'') ''statusCode'' = Inr (JNum 0) \<and>
   snd (cors (dispatch (example_world Map.empty (Inr nice_app) (Inr JNull) (Inr JNull))
      (failing_backend (createError 0 ''Not sent'')) JUndefined) post_request) =
     Inl (createError 0 ''Not sent'') \<and>
   sends (fst (microfeedback (example_world Map.empty (Inr nice_app) (Inr JNull) (Inr JNull))
      (failing_backend (createError 0 ''Not sent'')) JUndefined post_request)) =
     [(JNum 500, JObj [(''status'', JNum 500), (''message'', JStr ''Not sent'')])]"
  by (simp add: example_defs handler_defs)

text \<open>
  Claim C7, as the code has it. When the dispatcher throws an error that properties can
  be read from, and the error's \<^verbatim>\<open>statusCode\<close> is a whole number from 100 to 999 or is
  falsy (absent, 0, \<^verbatim>\<open>NaN\<close>), the handler renders exactly one response, by one call of
  \<^verbatim>\<open>send\<close> that succeeds: its status is that number in the first case and 500 in the
  second, and its body is \<^verbatim>\<open>{status, message}\<close> with the error's own message.
\<close>

theorem error_rendered:
  assumes "snd (cors (dispatch w backend attributes) req) = Inl error"
    and "get_prop error ''statusCode'' = Inr statusCode"
    and "get_prop error ''message'' = Inr message"
    and "truthy statusCode \<longrightarrow> statusCode = JNum (of_int n) \<and> 100 \<le> n \<and> n \<le> 999"
  shows "sends (fst (microfeedback w backend attributes req)) =
      [(if truthy statusCode then statusCode else JNum 500,
        JObj [(''status'', if truthy statusCode then statusCode else JNum 500),
              (''message'', message)])] \<and>
    status_int w (if truthy statusCode then statusCode else JNum 500) =
      (if truthy statusCode then n else 500)"
proof -
  obtain stack where stack: "get_prop error ''stack'' = Inr stack"
    using get_prop_defined [OF assms(2)] by blast
  have run: "cors (dispatch w backend attributes) req =
      (fst (cors (dispatch w backend attributes) req), Inl error)"
    using assms(1) by (cases "cors (dispatch w backend attributes) req") simp
  have acc: "accepted_status w (js_or statusCode (JNum 500))"
    using assms(4) accepted_status_whole [of n w] by (cases "truthy statusCode") (auto simp add: js_or_def)
  have int: "status_int w (if truthy statusCode then statusCode else JNum 500) =
      (if truthy statusCode then n else 500)"
  proof (cases "truthy statusCode")
    case True
    then have n: "statusCode = JNum (of_int n)" "100 \<le> n" "n \<le> 999" using assms(4) by simp_all
    have "n mod 4294967296 = n" using n(2,3) by simp
    then show ?thesis using True n by (simp add: status_int_def to_int32_def Let_def)
  next
    case False
    then show ?thesis by (simp add: status_int_def to_int32_def)
  qed
  from handleErrors_rendered [where fn = "cors (dispatch w backend attributes)",
      OF run stack assms(2,3) acc]
  show ?thesis using dispatcher_threw_unsent [OF assms(1)] int
    by (simp add: microfeedback_def js_or_def)
qed

theorem error_rendered_witness:
  "snd (cors (dispatch (example_world Map.empty (Inr nice_app) (Inr JNull) (Inr JNull))
      (failing_backend (createError 404 ''No such project'')) JUndefined) post_request) =
     Inl (createError 404 ''No such project'') \<and>
   get_prop (createError 404 ''No such project'') ''statusCode'' = Inr (JNum 404) \<and>
   get_prop (createError 404 ''No such project'') ''message'' = Inr (JStr ''No such project'') \<and>
   truthy (JNum 404) \<and> JNum 404 = JNum (of_int 404) \<and> (100::int) \<le> 404 \<and> (404::int) \<le> 999 \<and>
   sends (fst (microfeedback (example_world Map.empty (Inr nice_app) (Inr JNull) (Inr JNull))
      (failing_backend (createError 404 ''No such project'')) JUndefined post_request)) =
     [(JNum 404, JObj [(''status'', JNum 404), (''message'', JStr ''No such project'')])] \<and>
   status_int (example_world Map.empty (Inr nice_app) (Inr JNull) (Inr JNull)) (JNum 404) = 404"
proof -
  let ?w = "example_world Map.empty (Inr nice_app) (Inr JNull) (Inr JNull)"
  let ?e = "createError 404 ''No such project''"
  have h: "snd (cors (dispatch ?w (failing_backend ?e) JUndefined) post_request) = Inl ?e"
    "get_prop ?e ''statusCode'' = Inr (JNum 404)"
    "get_prop ?e ''message'' = Inr (JStr ''No such project'')"
    "truthy (JNum 404) \<longrightarrow> JNum 404 = JNum (of_int 404) \<and> (100::int) \<le> 404 \<and> (404::int) \<le> 999"
    by (simp_all add: example_defs handler_defs)
  from error_rendered [OF h] show ?thesis using h by simp
qed

text \<open>
  A truthy status code that \<^verbatim>\<open>writeHead\<close> refuses is not rendered by the handler: the
  \<^verbatim>\<open>send\<close> of line 27 throws inside the \<^verbatim>\<open>catch\<close> block, nothing is sent and the handler
  rejects. So it is for the status code 1000.
\<close>

lemma error_refused:
  assumes "snd (cors (dispatch w backend attributes) req) = Inl error"
    and "get_prop error ''statusCode'' = Inr statusCode"
    and "get_prop error ''message'' = Inr message"
    and "\<not> accepted_status w (js_or statusCode (JNum 500))"
  shows "sends (fst (microfeedback w backend attributes req)) = [] \<and>
    snd (microfeedback w backend attributes req) = Inl rangeError"
proof -
  obtain stack where stack: "get_prop error ''stack'' = Inr stack"
    using get_prop_defined [OF assms(2)] by blast
  have run: "cors (dispatch w backend attributes) req =
      (fst (cors (dispatch w backend attributes) req), Inl error)"
    using assms(1) by (cases "cors (dispatch w backend attributes) req") simp
  from handleErrors_refused [where fn = "cors (dispatch w backend attributes)",
      OF run stack assms(2,3,4)]
  show ?thesis using dispatcher_threw_unsent [OF assms(1)]
    by (simp add: microfeedback_def)
qed

lemma error_refused_example:
  "sends (fst (microfeedback (example_world Map.empty (Inr nice_app) (Inr JNull) (Inr JNull))
      (failing_backend (createError 1000 ''Out of range'')) JUndefined post_request)) = [] \<and>
   snd (microfeedback (example_world Map.empty (Inr nice_app) (Inr JNull) (Inr JNull))
      (failing_backend (createError 1000 ''Out of range'')) JUndefined post_request) =
     Inl rangeError"
  by (simp add: example_defs handler_defs)

subsection \<open>C8: GET\<close>

text \<open>
  Claim C8. A \<^verbatim>\<open>GET\<close> request is answered with status 200 and the info envelope: the
  welcome message, \<^verbatim>\<open>core\<close> with the version and the two flags, and \<^verbatim>\<open>backend\<close> when
  attributes were given. Neither moderation service is called, and the backend is not
  called.
\<close>

theorem get_info:
  assumes "req_method req = ''GET''"
  shows "sends (fst (microfeedback w backend attributes req)) =
      [(JNum 200,
        JObj ([(''message'',
                  JStr ''Welcome to the microfeedback API. Send a POST request to send feedback.''),
               (''core'',
                  JObj [(''version'', JStr (pkg_version w)),
                        (''perspectiveEnabled'', JBool (perspectiveEnabled w)),
                        (''akismetEnabled'', JBool (akismetEnabled w))])] @
              (if truthy attributes then [(''backend'', attributes)] else [])))] \<and>
    analyze_calls (fst (microfeedback w backend attributes req)) = [] \<and>
    checkSpam_calls (fst (microfeedback w backend attributes req)) = [] \<and>
    backend_calls (fst (microfeedback w backend attributes req)) = []"
  using assms
  by (simp add: microfeedback_def handleErrors_def cors_def dispatch_def info_def
      with_backend_def run_defs)

theorem get_info_witness:
  "req_method get_request = ''GET'' \<and>
   sends (fst (microfeedback (example_world Map.empty (Inr nice_app) (Inr JNull) (Inr JNull))
       example_backend (JObj [(''name'', JStr ''email'')]) get_request)) =
      [(JNum 200,
        JObj [(''message'',
                 JStr ''Welcome to the microfeedback API. Send a POST request to send feedback.''),
              (''core'',
                 JObj [(''version'', JStr ''1.0.0''),
                       (''perspectiveEnabled'', JBool False),
                       (''akismetEnabled'', JBool False)]),
              (''backend'', JObj [(''name'', JStr ''email'')])])] \<and>
   backend_calls (fst (microfeedback (example_world Map.empty (Inr nice_app) (Inr JNull) (Inr JNull))
       example_backend (JObj [(''name'', JStr ''email'')]) get_request)) = []"
proof -
  have m: "req_method get_request = ''GET''" by (simp add: get_request_def)
  from get_info [OF m] show ?thesis using m
    by (simp add: example_world_def perspectiveEnabled_def akismetEnabled_def env_flag_def
        env_val_def)
qed

subsection \<open>C9: the toxicity score\<close>

text \<open>
  Claim C9 as stated bounds the stored score by 0 and 1. The handler stores what the
  response carries: for a response whose value is 2 the backend receives
  \<^verbatim>\<open>{toxicity: 2}\<close>.
\<close>

theorem toxicity_range_counterexample:
  "perspectiveEnabled (example_world [''PERSPECTIVE_API_KEY'' \<mapsto> ''key''] (Inr nice_app)
      (Inr (score_response (JObj [(''value'', JNum 2)]))) (Inr JNull)) \<and>
   snd (toxicity_stage (example_world [''PERSPECTIVE_API_KEY'' \<mapsto> ''key''] (Inr nice_app)
      (Inr (score_response (JObj [(''value'', JNum 2)]))) (Inr JNull)) (JStr ''nice app!'')) =
     Inr (JObj [(''toxicity'', JNum 2)]) \<and>
   backend_calls (fst (microfeedback
      (example_world [''PERSPECTIVE_API_KEY'' \<mapsto> ''key''] (Inr nice_app)
         (Inr (score_response (JObj [(''value'', JNum 2)]))) (Inr JNull))
      example_backend JUndefined post_request)) =
     [(JObj [(''input'', nice_app), (''perspective'', JObj [(''toxicity'', JNum 2)]),
             (''akismet'', JNull)], post_request)] \<and>
   \<not> in_unit_interval (JNum 2)"
  by (simp add: example_defs handler_defs in_unit_interval_def)

text \<open>
  Claim C9, as the code has it. A \<^verbatim>\<open>POST\<close> request that passes validation, with the
  toxicity check enabled and a response whose \<^verbatim>\<open>attributeScores.TOXICITY.summaryScore.value\<close>
  reads as \<open>score\<close>: the toxicity stage leaves \<^verbatim>\<open>{toxicity: score}\<close> with that same value,
  unchanged and unchecked, and this is the \<^verbatim>\<open>perspective\<close> the backend receives when the
  spam stage does not block.
\<close>

theorem toxicity_passed_through:
  assumes "req_method req = ''POST''" and "json w req = Inr input"
    and "get_prop input ''body'' = Inr body" and "truthy body"
    and "perspectiveEnabled w"
    and "analyze w (perspective_options w) body analyze_options = Inr response"
    and "get_prop response ''attributeScores'' = Inr scores"
    and "get_prop scores ''TOXICITY'' = Inr tox"
    and "get_prop tox ''summaryScore'' = Inr summary"
    and "get_prop summary ''value'' = Inr score"
    and "spam_stage w req body = (t2, Inr akismet)"
  shows "snd (toxicity_stage w body) = Inr (JObj [(''toxicity'', score)]) \<and>
    backend_calls (fst (microfeedback w backend attributes req)) =
      [(JObj [(''input'', input), (''perspective'', JObj [(''toxicity'', score)]),
              (''akismet'', akismet)], req)]"
proof -
  have "snd (toxicity_attempt w body) = Inr (JObj [(''toxicity'', score)])"
    using assms(6) extract_toxicity_reads [OF assms(7,8,9,10)]
    by (simp add: toxicity_attempt_def run_defs)
  note tox = toxicity_stage_ok [OF assms(5) this]
  have t2: "backend_calls t2 = []"
    using spam_stage_trace [of w req body] assms(11) by simp
  from post_delegates [OF assms(2,3,4) tox assms(11), of backend attributes]
  have "backend_calls (fst (post w backend attributes req)) =
      [(context_object input (JObj [(''toxicity'', score)]) akismet, req)]"
    using t2 by (simp split: sum.splits)
  then show ?thesis using assms(1) tox
    by (simp add: microfeedback_post_calls context_object_def)
qed

theorem toxicity_passed_through_witness:
  "req_method post_request = ''POST'' \<and>
   json (example_world [''PERSPECTIVE_API_KEY'' \<mapsto> ''key''] (Inr nice_app)
        (Inr (score_response (JObj [(''value'', JNum 0.25)]))) (Inr JNull)) post_request =
     Inr nice_app \<and>
   get_prop nice_app ''body'' = Inr (JStr ''nice app!'') \<and>
   truthy (JStr ''nice app!'') \<and>
   perspectiveEnabled (example_world [''PERSPECTIVE_API_KEY'' \<mapsto> ''key''] (Inr nice_app)
        (Inr (score_response (JObj [(''value'', JNum 0.25)]))) (Inr JNull)) \<and>
   analyze (example_world [''PERSPECTIVE_API_KEY'' \<mapsto> ''key''] (Inr nice_app)
        (Inr (score_response (JObj [(''value'', JNum 0.25)]))) (Inr JNull))
     (perspective_options (example_world [''PERSPECTIVE_API_KEY'' \<mapsto> ''key''] (Inr nice_app)
        (Inr (score_response (JObj [(''value'', JNum 0.25)]))) (Inr JNull)))
     (JStr ''nice app!'') analyze_options =
     Inr (score_response (JObj [(''value'', JNum 0.25)])) \<and>
   get_prop (score_response (JObj [(''value'', JNum 0.25)])) ''attributeScores'' =
     Inr (JObj [(''TOXICITY'', JObj [(''summaryScore'', JObj [(''value'', JNum 0.25)])])]) \<and>
   get_prop (JObj [(''TOXICITY'', JObj [(''summaryScore'', JObj [(''value'', JNum 0.25)])])])
     ''TOXICITY'' = Inr (JObj [(''summaryScore'', JObj [(''value'', JNum 0.25)])]) \<and>
   get_prop (JObj [(''summaryScore'', JObj [(''value'', JNum 0.25)])]) ''summaryScore'' =
     Inr (JObj [(''value'', JNum 0.25)]) \<and>
   get_prop (JObj [(''value'', JNum 0.25)]) ''value'' = Inr (JNum 0.25) \<and>
   spam_stage (example_world [''PERSPECTIVE_API_KEY'' \<mapsto> ''key''] (Inr nice_app)
        (Inr (score_response (JObj [(''value'', JNum 0.25)]))) (Inr JNull)) post_request
        (JStr ''nice app!'') = ([], Inr JNull) \<and>
   snd (toxicity_stage (example_world [''PERSPECTIVE_API_KEY'' \<mapsto> ''key''] (Inr nice_app)
        (Inr (score_response (JObj [(''value'', JNum 0.25)]))) (Inr JNull)) (JStr ''nice app!'')) =
     Inr (JObj [(''toxicity'', JNum 0.25)]) \<and>
   backend_calls (fst (microfeedback
      (example_world [''PERSPECTIVE_API_KEY'' \<mapsto> ''key''] (Inr nice_app)
        (Inr (score_response (JObj [(''value'', JNum 0.25)]))) (Inr JNull))
      example_backend JUndefined post_request)) =
     [(JObj [(''input'', nice_app), (''perspective'', JObj [(''toxicity'', JNum 0.25)]),
             (''akismet'', JNull)], post_request)]"
proof -
  let ?w = "example_world [''PERSPECTIVE_API_KEY'' \<mapsto> ''key''] (Inr nice_app)
    (Inr (score_response (JObj [(''value'', JNum 0.25)]))) (Inr JNull)"
  have h: "req_method post_request = ''POST''" "json ?w post_request = Inr nice_app"
    "get_prop nice_app ''body'' = Inr (JStr ''nice app!'')" "truthy (JStr ''nice app!'')"
    "perspectiveEnabled ?w"
    "analyze ?w (perspective_options ?w) (JStr ''nice app!'') analyze_options =
       Inr (score_response (JObj [(''value'', JNum 0.25)]))"
    "get_prop (score_response (JObj [(''value'', JNum 0.25)])) ''attributeScores'' =
       Inr (JObj [(''TOXICITY'', JObj [(''summaryScore'', JObj [(''value'', JNum 0.25)])])])"
    "get_prop (JObj [(''TOXICITY'', JObj [(''summaryScore'', JObj [(''value'', JNum 0.25)])])])
       ''TOXICITY'' = Inr (JObj [(''summaryScore'', JObj [(''value'', JNum 0.25)])])"
    "get_prop (JObj [(''summaryScore'', JObj [(''value'', JNum 0.25)])]) ''summaryScore'' =
       Inr (JObj [(''value'', JNum 0.25)])"
    "get_prop (JObj [(''value'', JNum 0.25)]) ''value'' = Inr (JNum 0.25)"
    "spam_stage ?w post_request (JStr ''nice app!'') = ([], Inr JNull)"
    by (simp_all add: example_defs handler_defs)
  from toxicity_passed_through [OF h, of example_backend JUndefined]
  show ?thesis using h by simp
qed

subsection \<open>C10: the type of the body is not checked\<close>

text \<open>
  Claim C10. A \<^verbatim>\<open>POST\<close> request whose parsed payload has a truthy \<^verbatim>\<open>body\<close> of any type
  passes validation and is handled as one with a string is: the toxicity checker, when
  enabled, is called with that \<^verbatim>\<open>body\<close> itself; when the toxicity stage leaves a value,
  the spam checker, when enabled, is called with that \<^verbatim>\<open>body\<close> as \<^verbatim>\<open>comment_content\<close>;
  and when the spam stage leaves a value too, the backend is called once with the
  payload unchanged.
\<close>

theorem body_type_unchecked:
  assumes "req_method req = ''POST''" and "json w req = Inr input"
    and "get_prop input ''body'' = Inr body" and "truthy body"
  shows "analyze_calls (fst (microfeedback w backend attributes req)) =
      (if perspectiveEnabled w
       then [(JObj [(''apiKey'', env_val w ''PERSPECTIVE_API_KEY'')], body,
              JObj [(''truncate'', JBool True)])]
       else []) \<and>
    (\<forall>t1 perspective.
       toxicity_stage w body = (t1, Inr perspective) \<longrightarrow>
       checkSpam_calls (fst (microfeedback w backend attributes req)) =
         (if akismetEnabled w
          then [(akismet_options w req,
                 JObj [(''user_ip'', header req ''remote-addr''),
                       (''user_agent'', header req ''user-agent''),
                       (''referrer'', header req ''referer''),
                       (''comment_type'', JStr ''comment''),
                       (''comment_content'', body)])]
          else []) \<and>
       (\<forall>t2 akismet.
          spam_stage w req body = (t2, Inr akismet) \<longrightarrow>
          backend_calls (fst (microfeedback w backend attributes req)) =
            [(JObj [(''input'', input), (''perspective'', perspective),
                    (''akismet'', akismet)], req)]))"
proof -
  obtain t1 r1 where tox: "toxicity_stage w body = (t1, r1)"
    by (cases "toxicity_stage w body")
  obtain t2 r2 where spam: "spam_stage w req body = (t2, r2)"
    by (cases "spam_stage w req body")
  have t1: "analyze_calls t1 =
      (if perspectiveEnabled w then [(perspective_options w, body, analyze_options)] else [])"
    "checkSpam_calls t1 = []" "backend_calls t1 = []"
    using toxicity_stage_trace [of w body] tox by simp_all
  have t2: "analyze_calls t2 = []" "backend_calls t2 = []"
    "checkSpam_calls t2 =
      (if akismetEnabled w then [(akismet_options w req, akismet_params req body)] else [])"
    using spam_stage_trace [of w req body] spam by simp_all
  have a: "analyze_calls (fst (post w backend attributes req)) =
      (if perspectiveEnabled w then [(perspective_options w, body, analyze_options)] else [])"
  proof (cases r1)
    case (Inl e)
    from post_toxicity_threw [OF assms(2,3,4) tox [unfolded Inl]]
    show ?thesis using t1 by simp
  next
    case p: (Inr perspective)
    show ?thesis
    proof (cases r2)
      case (Inl e)
      from post_spam_threw [OF assms(2,3,4) tox [unfolded p] spam [unfolded Inl]]
      show ?thesis using t1 t2 by simp
    next
      case (Inr akismet)
      from post_delegates [OF assms(2,3,4) tox [unfolded p] spam [unfolded Inr]]
      show ?thesis using t1 t2 by (simp split: sum.splits)
    qed
  qed
  have s: "checkSpam_calls (fst (post w backend attributes req)) =
      (if akismetEnabled w then [(akismet_options w req, akismet_params req body)] else [])"
    if "r1 = Inr perspective" for perspective
  proof (cases r2)
    case (Inl e)
    from post_spam_threw [OF assms(2,3,4) tox [unfolded that] spam [unfolded Inl]]
    show ?thesis using t1 t2 by simp
  next
    case (Inr akismet)
    from post_delegates [OF assms(2,3,4) tox [unfolded that] spam [unfolded Inr]]
    show ?thesis using t1 t2 by (simp split: sum.splits)
  qed
  have b: "backend_calls (fst (post w backend attributes req)) =
      [(context_object input perspective akismet, req)]"
    if "r1 = Inr perspective" "r2 = Inr akismet" for perspective akismet
  proof -
    from post_delegates [OF assms(2,3,4) tox [unfolded that(1)] spam [unfolded that(2)]]
    show ?thesis using t1 t2 by (simp split: sum.splits)
  qed
  show ?thesis
    using a s b tox spam assms(1,4)
    by (simp add: microfeedback_post_calls context_object_def perspective_options_def
        analyze_options_def akismet_params_def js_or_def)
qed

theorem body_type_unchecked_witness:
  "req_method post_request = ''POST'' \<and>
   json (example_world [''PERSPECTIVE_API_KEY'' \<mapsto> ''key'', ''AKISMET_API_KEY'' \<mapsto> ''key'']
        (Inr (JObj [(''body'', JArr [])])) (Inr (score_response (JObj [(''value'', JNum 0.25)])))
        (Inr (JBool False))) post_request = Inr (JObj [(''body'', JArr [])]) \<and>
   get_prop (JObj [(''body'', JArr [])]) ''body'' = Inr (JArr []) \<and>
   truthy (JArr []) \<and>
   analyze_calls (fst (microfeedback
      (example_world [''PERSPECTIVE_API_KEY'' \<mapsto> ''key'', ''AKISMET_API_KEY'' \<mapsto> ''key'']
        (Inr (JObj [(''body'', JArr [])])) (Inr (score_response (JObj [(''value'', JNum 0.25)])))
        (Inr (JBool False)))
      example_backend JUndefined post_request)) =
     [(JObj [(''apiKey'', JStr ''key'')], JArr [], JObj [(''truncate'', JBool True)])] \<and>
   checkSpam_calls (fst (microfeedback
      (example_world [''PERSPECTIVE_API_KEY'' \<mapsto> ''key'', ''AKISMET_API_KEY'' \<mapsto> ''key'']
        (Inr (JObj [(''body'', JArr [])])) (Inr (score_response (JObj [(''value'', JNum 0.25)])))
        (Inr (JBool False)))
      example_backend JUndefined post_request)) =
     [(JObj [(''key'', JStr ''key''), (''blog'', JStr ''https://example.org'')],
       JObj [(''user_ip'', JUndefined), (''user_agent'', JStr ''curl''),
             (''referrer'', JUndefined), (''comment_type'', JStr ''comment''),
             (''comment_content'', JArr [])])] \<and>
   backend_calls (fst (microfeedback
      (example_world [''PERSPECTIVE_API_KEY'' \<mapsto> ''key'', ''AKISMET_API_KEY'' \<mapsto> ''key'']
        (Inr (JObj [(''body'', JArr [])])) (Inr (score_response (JObj [(''value'', JNum 0.25)])))
        (Inr (JBool False)))
      example_backend JUndefined post_request)) =
     [(JObj [(''input'', JObj [(''body'', JArr [])]),
             (''perspective'', JObj [(''toxicity'', JNum 0.25)]),
             (''akismet'', JObj [(''spam'', JBool False)])], post_request)]"
proof -
  let ?w = "example_world [''PERSPECTIVE_API_KEY'' \<mapsto> ''key'', ''AKISMET_API_KEY'' \<mapsto> ''key'']
    (Inr (JObj [(''body'', JArr [])])) (Inr (score_response (JObj [(''value'', JNum 0.25)])))
    (Inr (JBool False))"
  have h: "req_method post_request = ''POST''"
    "json ?w post_request = Inr (JObj [(''body'', JArr [])])"
    "get_prop (JObj [(''body'', JArr [])]) ''body'' = Inr (JArr [])" "truthy (JArr [])"
    by (simp_all add: example_defs)
  have stages: "perspectiveEnabled ?w" "akismetEnabled ?w"
    "toxicity_stage ?w (JArr []) =
       ([Analyze (perspective_options ?w) (JArr []) analyze_options],
        Inr (JObj [(''toxicity'', JNum 0.25)]))"
    "spam_stage ?w post_request (JArr []) =
       ([CheckSpam (akismet_options ?w post_request) (akismet_params post_request (JArr []))],
        Inr (JObj [(''spam'', JBool False)]))"
    by (simp_all add: example_defs handler_defs)
  from body_type_unchecked [OF h, of example_backend JUndefined]
  show ?thesis using h stages
    by (simp add: example_defs env_val_def akismet_options_def header_def)
qed

end
